theory Spec2Isabelle
  imports Complex_Main "HOL-Library.Sublist"
begin

section \<open>Python values used by the VecTiles server\<close>

text \<open>
  The embedding follows \<^verbatim>\<open>TileStache/Goodies/VecTiles/server.py\<close>.
  Python floats are idealised as the reals (no rounding, no infinities, no NaN, no signed
  zero); Python's unbounded integers are \<^typ>\<open>int\<close>; a Python string is a
  \<^typ>\<open>string\<close>. Every exception the source can raise is a value of
  \<open>py_error\<close>, and a function that can raise returns \<open>py_error + 'a\<close>.
\<close>

datatype py_error =
    IndexError
  | KeyError string
  | ValueError string
  | TypeError
  | Exception string
  | KnownUnknown string
  | DatabaseError string

text \<open>
  \<^verbatim>\<open>xs[i]\<close>: a negative index counts from the end, and an index outside
  the list raises \<open>IndexError\<close>.
\<close>

definition py_index :: "'a list \<Rightarrow> int \<Rightarrow> py_error + 'a" where
  "py_index xs i =
     (if 0 \<le> i \<and> i < int (length xs) then Inr (xs ! nat i)
      else if i < 0 \<and> - int (length xs) \<le> i then Inr (xs ! nat (int (length xs) + i))
      else Inl IndexError)"

section \<open>The per-zoom unit distances\<close>

text \<open>
  \<^verbatim>\<open>tolerances = [6378137 * 2 * pi / (2 ** (zoom + 8)) for zoom in range(22)]\<close>
\<close>

definition tolerances :: "real list" where
  "tolerances = map (\<lambda>zoom. 6378137 * 2 * pi / 2 ^ (zoom + 8)) [0..<22]"

section \<open>Zoom resolution in \<open>Provider.renderTile\<close>\<close>

text \<open>
  Lines 145-148: \<^verbatim>\<open>try: query = self.queries[coord.zoom]
  except IndexError: query = self.queries[-1]\<close>. An entry of the list is a query text or
  \<^verbatim>\<open>None\<close>. The second lookup is outside the \<^verbatim>\<open>try\<close>, so its
  \<open>IndexError\<close> (on an empty list) escapes.
\<close>

definition lookup_query :: "string option list \<Rightarrow> int \<Rightarrow> py_error + string option" where
  "lookup_query queries zoom =
     (case py_index queries zoom of
        Inl IndexError \<Rightarrow> py_index queries (- 1)
      | Inl e \<Rightarrow> Inl e
      | Inr query \<Rightarrow> Inr query)"

text \<open>
  Line 160: \<^verbatim>\<open>tolerance = self.simplify * tolerances[coord.zoom]
  if coord.zoom < self.simplify_until else None\<close>. The table is indexed only when the
  condition holds.
\<close>

definition zoom_tolerance :: "real \<Rightarrow> int \<Rightarrow> int \<Rightarrow> py_error + real option" where
  "zoom_tolerance simplify simplify_until zoom =
     (if zoom < simplify_until then
        (case py_index tolerances zoom of
           Inl e \<Rightarrow> Inl e
         | Inr t \<Rightarrow> Inr (Some (simplify * t)))
      else Inr None)"

lemma length_tolerances: "length tolerances = 22"
  by (simp add: tolerances_def)

lemma tolerances_nth:
  "n < 22 \<Longrightarrow> tolerances ! n = 6378137 * 2 * pi / 2 ^ (n + 8)"
  by (simp add: tolerances_def)

lemma py_index_in_range:
  "0 \<le> i \<Longrightarrow> i < int (length xs) \<Longrightarrow> py_index xs i = Inr (xs ! nat i)"
  by (simp add: py_index_def)

lemma py_index_past_end:
  "int (length xs) \<le> i \<Longrightarrow> py_index xs i = Inl IndexError"
  by (simp add: py_index_def)

section \<open>String formatting and replacement\<close>

text \<open>
  The decimal digits of a natural number, and \<^verbatim>\<open>'%d' % i\<close>.
\<close>

fun dec_digits :: "nat \<Rightarrow> string" where
  "dec_digits n =
     (if n < 10 then [''0123456789'' ! n]
      else dec_digits (n div 10) @ [''0123456789'' ! (n mod 10)])"

declare dec_digits.simps [simp del]

definition fmt_d :: "int \<Rightarrow> string" where
  "fmt_d i = (if i < 0 then ''-'' else []) @ dec_digits (nat \<bar>i\<bar>)"

text \<open>
  \<^verbatim>\<open>'%.<n>f' % x\<close>: the sign of \<open>x\<close>, then \<open>\<bar>x\<bar>\<close> rounded to
  \<open>n\<close> decimals (ties to even, as the correctly rounded conversion does), the
  fraction padded with zeros to \<open>n\<close> digits. \<^verbatim>\<open>'%f'\<close> is \<open>n = 6\<close>.
\<close>

definition round_half_even :: "real \<Rightarrow> int" where
  "round_half_even x =
     (let f = \<lfloor>x\<rfloor> in
      if x - of_int f < 1 / 2 then f
      else if 1 / 2 < x - of_int f then f + 1
      else if even f then f else f + 1)"

definition zero_pad :: "nat \<Rightarrow> string \<Rightarrow> string" where
  "zero_pad n s = replicate (n - length s) (CHR ''0'') @ s"

definition fmt_f :: "nat \<Rightarrow> real \<Rightarrow> string" where
  "fmt_f n x =
     (let m = nat (round_half_even (\<bar>x\<bar> * 10 ^ n)) in
      (if x < 0 then ''-'' else []) @ dec_digits (m div 10 ^ n)
        @ (if n = 0 then [] else ''.'' @ zero_pad n (dec_digits (m mod 10 ^ n))))"

text \<open>
  \<^verbatim>\<open>s.replace(old, new)\<close>: every non-overlapping occurrence of \<open>old\<close>, left to
  right; with an empty \<open>old\<close> Python puts \<open>new\<close> before every character and at
  the end.
\<close>

function str_replace :: "string \<Rightarrow> string \<Rightarrow> string \<Rightarrow> string" where
  "str_replace old new s =
     (if old = [] then new @ concat (map (\<lambda>c. c # new) s)
      else if s = [] then []
      else if prefix old s then new @ str_replace old new (drop (length old) s)
      else hd s # str_replace old new (tl s))"
  by pat_completeness auto
termination
  by (relation "measure (\<lambda>(old, new, s). length s)") auto

declare str_replace.simps [simp del]

text \<open>\<^verbatim>\<open>sep.join(xs)\<close>\<close>

fun str_join :: "string \<Rightarrow> string list \<Rightarrow> string" where
  "str_join sep [] = []"
| "str_join sep [x] = x"
| "str_join sep (x # y # ys) = x @ sep @ str_join sep (y # ys)"

section \<open>Zoom resolution: the tolerance and the sticky last query\<close>

lemma py_index_tolerances:
  "0 \<le> z \<Longrightarrow> z < 22 \<Longrightarrow>
     py_index tolerances z = Inr (6378137 * 2 * pi / 2 ^ (nat z + 8))"
  by (simp add: py_index_def length_tolerances tolerances_nth)

lemma zoom_tolerance_in_table:
  "0 \<le> z \<Longrightarrow> z < 22 \<Longrightarrow> z < simplify_until \<Longrightarrow>
     zoom_tolerance simplify simplify_until z =
       Inr (Some (simplify * (6378137 * 2 * pi / 2 ^ (nat z + 8))))"
  by (simp add: zoom_tolerance_def py_index_tolerances)

lemma zoom_tolerance_absent:
  "simplify_until \<le> z \<Longrightarrow> zoom_tolerance simplify simplify_until z = Inr None"
  by (simp add: zoom_tolerance_def)

lemma lookup_query_past_end:
  assumes "int (length queries) \<le> z"
  shows "lookup_query queries z = py_index queries (- 1)"
  using assms by (simp add: lookup_query_def py_index_past_end)

lemma lookup_query_last:
  "lookup_query queries (int (length queries) - 1) = py_index queries (- 1)"
proof (cases "queries = []")
  case True
  then show ?thesis by (simp add: lookup_query_def py_index_def)
next
  case False
  then obtain n where n: "length queries = Suc n"
    by (cases queries) auto
  show ?thesis
    by (simp add: lookup_query_def py_index_def n)
qed

text \<open>
  The unit distance as the specification words it:
  \<open>EARTH_CIRCUMFERENCE * 2\<pi> / 2^(zoom + 8)\<close>. The constant 6378137 of line 33 is the
  Earth's equatorial radius in metres, so the circumference is \<open>2 * pi * 6378137\<close>.
\<close>

definition earth_circumference :: real where
  "earth_circumference = 2 * pi * 6378137"

definition spec_base_unit_distance :: "nat \<Rightarrow> real" where
  "spec_base_unit_distance zoom = earth_circumference * 2 * pi / 2 ^ (zoom + 8)"

text \<open>
  Claim C1, as stated: below \<open>simplify_until\<close> the tolerance is
  \<open>simplify_scale * (EARTH_CIRCUMFERENCE * 2\<pi> / 2^(z + 8))\<close>. At zoom 0 with the
  defaults \<open>simplify = 1\<close> and \<open>simplify_until = 16\<close> the code gives
  \<open>6378137 * 2 * pi / 2^8\<close>, which is the circumference over \<open>2^8\<close> and not
  \<open>2 * pi\<close> times as much.
\<close>

theorem tolerance_circumference_counterexample:
  "(0::int) < 16 \<and> zoom_tolerance 1 16 0 \<noteq> Inr (Some (1 * spec_base_unit_distance (nat 0)))"
proof -
  have a: "zoom_tolerance 1 16 0 = Inr (Some (1 * (6378137 * 2 * pi / 2 ^ (nat 0 + 8))))"
    by (rule zoom_tolerance_in_table) simp_all
  have "(1::real) < 2 * pi" using pi_ge_two by simp
  then have "6378137 * 2 * pi * 1 < 6378137 * 2 * pi * (2 * pi)"
    using pi_gt_zero by (intro mult_strict_left_mono) simp_all
  then have "6378137 * 2 * pi / 2 ^ 8 \<noteq> 2 * pi * 6378137 * 2 * pi / 2 ^ 8"
    by simp
  then show ?thesis
    unfolding a by (simp add: spec_base_unit_distance_def earth_circumference_def)
qed

text \<open>
  Claim C1, amended. For a zoom \<open>z\<close> of the precomputed table (0..21) that is below
  \<open>simplify_until\<close>, the tolerance of line 160 is
  \<open>simplify * (6378137 * 2 * pi / 2 ^ (z + 8))\<close>, the constant being the Earth's radius
  (so the unit distance is the circumference over \<open>2 ^ (z + 8)\<close>); for every zoom at or
  above \<open>simplify_until\<close> the tolerance is absent (\<^verbatim>\<open>None\<close>), whatever the zoom.
\<close>

theorem tolerance_by_zoom:
  "(0 \<le> z \<and> z < 22 \<and> z < simplify_until \<longrightarrow>
      zoom_tolerance simplify simplify_until z =
        Inr (Some (simplify * (6378137 * 2 * pi / 2 ^ (nat z + 8)))))
   \<and> (simplify_until \<le> z \<longrightarrow> zoom_tolerance simplify simplify_until z = Inr None)"
  by (simp add: zoom_tolerance_in_table zoom_tolerance_absent)

theorem tolerance_by_zoom_witness:
  "zoom_tolerance 1 16 3 = Inr (Some (1 * (6378137 * 2 * pi / 2 ^ (nat 3 + 8))))
   \<and> zoom_tolerance (1 / 2) 16 21 = Inr None"
  using tolerance_by_zoom [of 3 16 1] tolerance_by_zoom [of 21 16 "1 / 2"] by simp

text \<open>
  Claim C3, as stated: past the end of the query list the template and the tolerance are
  those of the last configured zoom. With two configured zooms, default
  \<open>simplify = 1\<close> and \<open>simplify_until = 16\<close>, zoom 5 resolves the template of
  zoom 1 but its tolerance is the one of zoom 5, not the one of zoom 1.
\<close>

theorem sticky_tolerance_counterexample:
  "int (length [None, Some ''SELECT way AS __geometry__ FROM planet_osm_line'']) \<le> 5
   \<and> lookup_query [None, Some ''SELECT way AS __geometry__ FROM planet_osm_line''] 5
       = lookup_query [None, Some ''SELECT way AS __geometry__ FROM planet_osm_line''] 1
   \<and> zoom_tolerance 1 16 5 \<noteq> zoom_tolerance 1 16 1"
proof -
  have a: "zoom_tolerance 1 16 5 = Inr (Some (1 * (6378137 * 2 * pi / 2 ^ (nat 5 + 8))))"
    by (rule zoom_tolerance_in_table) simp_all
  have b: "zoom_tolerance 1 16 1 = Inr (Some (1 * (6378137 * 2 * pi / 2 ^ (nat 1 + 8))))"
    by (rule zoom_tolerance_in_table) simp_all
  have c: "zoom_tolerance 1 16 5 \<noteq> zoom_tolerance 1 16 1"
    unfolding a b by simp
  show ?thesis using c by (simp add: lookup_query_def py_index_def)
qed

text \<open>
  Claim C3, amended. For every zoom \<open>z\<close> at or past the length of the query list,
  the lookup of lines 145-148 gives what it gives for the last configured zoom
  \<open>length queries - 1\<close> (the last entry, or the same \<open>IndexError\<close> when the list
  is empty). The tolerance is not taken from the last configured zoom: it follows the
  requested zoom \<open>z\<close> itself, by the rule of line 160.
\<close>

theorem sticky_last_query:
  assumes "int (length queries) \<le> z"
  shows "lookup_query queries z = lookup_query queries (int (length queries) - 1)
    \<and> (0 \<le> z \<and> z < 22 \<and> z < simplify_until \<longrightarrow>
          zoom_tolerance simplify simplify_until z =
            Inr (Some (simplify * (6378137 * 2 * pi / 2 ^ (nat z + 8)))))
    \<and> (simplify_until \<le> z \<longrightarrow> zoom_tolerance simplify simplify_until z = Inr None)"
  using assms
  by (simp add: lookup_query_past_end lookup_query_last zoom_tolerance_in_table
      zoom_tolerance_absent)

theorem sticky_last_query_witness:
  "lookup_query [None, Some ''SELECT way AS __geometry__ FROM planet_osm_line''] 5
     = Inr (Some ''SELECT way AS __geometry__ FROM planet_osm_line'')
   \<and> zoom_tolerance 1 16 5 = Inr (Some (1 * (6378137 * 2 * pi / 2 ^ (nat 5 + 8))))
   \<and> zoom_tolerance 1 4 5 = Inr None"
  using sticky_last_query [of "[None, Some ''SELECT way AS __geometry__ FROM planet_osm_line'']" 5 16 1]
    sticky_last_query [of "[None, Some ''SELECT way AS __geometry__ FROM planet_osm_line'']" 5 4 1]
  by (simp add: lookup_query_def py_index_def)

section \<open>Query synthesis: \<open>build_query\<close>\<close>

text \<open>
  \<open>bounds\<close> is the 4-tuple \<^verbatim>\<open>(xmin, ymin, xmax, ymax)\<close>. The functions below are
  the local variables of \<^verbatim>\<open>build_query\<close>, in the order the source assigns them.
\<close>

type_synonym bounds = "real \<times> real \<times> real \<times> real"

text \<open>Lines 444-445: the padded bounding box, tagged with the SRID.\<close>

definition build_query_bbox :: "int \<Rightarrow> bounds \<Rightarrow> real \<Rightarrow> string" where
  "build_query_bbox srid bounds padding =
     (case bounds of (b0, b1, b2, b3) \<Rightarrow>
        ''ST_SetSRID('' @
          (''ST_MakeBox2D(ST_MakePoint('' @ fmt_f 2 (b0 - padding) @ '', '' @ fmt_f 2 (b1 - padding)
             @ ''), ST_MakePoint('' @ fmt_f 2 (b2 + padding) @ '', '' @ fmt_f 2 (b3 + padding) @ ''))'')
          @ '', '' @ fmt_d srid @ '')'')"

text \<open>
  Lines 446-459: the geometry expression. \<^verbatim>\<open>if scale:\<close> is false for
  \<^verbatim>\<open>None\<close> and for zero.
\<close>

definition build_query_geom ::
  "string \<Rightarrow> bounds \<Rightarrow> real option \<Rightarrow> bool \<Rightarrow> bool \<Rightarrow> real option \<Rightarrow> string" where
  "build_query_geom bbox bounds tolerance is_geo is_clipped scale =
     (case bounds of (b0, b1, b2, b3) \<Rightarrow>
      let geom = ''q.__geometry__'';
          geom = (if is_clipped then ''ST_Intersection('' @ geom @ '', '' @ bbox @ '')'' else geom);
          geom = (case tolerance of
                    None \<Rightarrow> geom
                  | Some t \<Rightarrow> ''ST_SimplifyPreserveTopology('' @ geom @ '', '' @ fmt_f 2 t @ '')'');
          geom = (if is_geo then ''ST_Transform('' @ geom @ '', 4326)'' else geom);
          geom = (case scale of
                    None \<Rightarrow> geom
                  | Some s \<Rightarrow>
                      if s = 0 then geom
                      else ''ST_TransScale('' @ geom @ '', '' @ fmt_f 2 (- b0) @ '', '' @ fmt_f 2 (- b1)
                        @ '', ('' @ fmt_f 2 s @ '' / ('' @ fmt_f 2 b2 @ '' - '' @ fmt_f 2 b0
                        @ '')), ('' @ fmt_f 2 s @ '' / ('' @ fmt_f 2 b3 @ '' - '' @ fmt_f 2 b1 @ '')))'')
      in geom)"

text \<open>
  Lines 462-470: the projected columns. The column set is the Python set that
  \<^verbatim>\<open>query_columns\<close> returned, here the list of its elements in iteration order, or
  \<^verbatim>\<open>None\<close> when the probe loop found no row; iterating \<^verbatim>\<open>None\<close> raises
  \<open>TypeError\<close>.
\<close>

definition quoted_column :: "string \<Rightarrow> string" where
  "quoted_column c = ''q.'' @ [CHR 0x22] @ c @ [CHR 0x22]"

definition geometry_missing :: py_error where
  "geometry_missing = Exception (''There'' @ [CHR 0x27] @ ''s supposed to be a __geometry__ column.'')"

definition build_query_columns :: "string list \<Rightarrow> py_error + string" where
  "build_query_columns subcolumns =
     (let columns = map quoted_column (filter (\<lambda>c. c \<noteq> ''__geometry__'') subcolumns) in
      if ''__geometry__'' \<notin> set subcolumns then Inl geometry_missing
      else
        let columns =
              (if ''__id__'' \<notin> set subcolumns
               then columns @ [''Substr(MD5(ST_AsBinary(q.__geometry__)), 1, 10) AS __id__'']
               else columns)
        in Inr (str_join '', '' columns))"

text \<open>Lines 472-480: the query text; \<open>nl\<close> is the line break of the template.\<close>

definition nl :: string where
  "nl = [CHR 0x0A]"

definition build_query_where :: "string \<Rightarrow> string" where
  "build_query_where bbox =
     ''WHERE ST_IsValid(q.__geometry__)'' @ nl @
     ''                AND q.__geometry__ && '' @ bbox @ nl @
     ''                AND ST_Intersects(q.__geometry__, '' @ bbox @ '')''"

definition build_query ::
  "int \<Rightarrow> string \<Rightarrow> string list option \<Rightarrow> bounds \<Rightarrow> real option \<Rightarrow> bool \<Rightarrow> bool
     \<Rightarrow> real \<Rightarrow> real option \<Rightarrow> py_error + string" where
  "build_query srid subquery subcolumns bounds tolerance is_geo is_clipped padding scale =
     (let bbox = build_query_bbox srid bounds padding;
          geom = build_query_geom bbox bounds tolerance is_geo is_clipped scale;
          subquery = str_replace ''!bbox!'' bbox subquery
      in case subcolumns of
           None \<Rightarrow> Inl TypeError
         | Some cols \<Rightarrow>
             (case build_query_columns cols of
                Inl e \<Rightarrow> Inl e
              | Inr columns \<Rightarrow>
                  Inr (''SELECT '' @ columns @ '','' @ nl @
                       ''                     ST_AsBinary('' @ geom @ '') AS __geometry__'' @ nl @
                       ''              FROM ('' @ nl @
                       ''                '' @ subquery @ nl @
                       ''                ) AS q'' @ nl @
                       ''              '' @ build_query_where bbox)))"


text \<open>
  The number of positions of a text at which a pattern occurs.
\<close>

fun count_sub :: "string \<Rightarrow> string \<Rightarrow> nat" where
  "count_sub p [] = 0"
| "count_sub p (c # cs) = (if prefix p (c # cs) then 1 else 0) + count_sub p cs"

subsection \<open>Occurrences of a token in the synthesised text\<close>

lemma not_prefix_head:
  "c \<notin> set p \<Longrightarrow> p \<noteq> [] \<Longrightarrow> \<not> prefix p (c # b)"
  by (cases p) auto

lemma count_sub_skip:
  "c \<notin> set p \<Longrightarrow> p \<noteq> [] \<Longrightarrow> count_sub p (c # b) = count_sub p b"
  by (simp add: not_prefix_head)

lemma prefix_sep:
  assumes "c \<notin> set p"
  shows "prefix p (a @ c # b) \<longleftrightarrow> prefix p a"
proof
  assume "prefix p (a @ c # b)"
  then consider "prefix p a" | us where "p = a @ us" "prefix us (c # b)"
    by (auto simp: prefix_append)
  then show "prefix p a"
  proof cases
    case 1
    then show ?thesis .
  next
    case 2
    with assms show ?thesis by (cases us) auto
  qed
next
  assume "prefix p a"
  then show "prefix p (a @ c # b)" by (rule prefix_prefix)
qed

lemma count_sub_sep:
  assumes "c \<notin> set p" "p \<noteq> []"
  shows "count_sub p (a @ c # b) = count_sub p a + count_sub p b"
proof (induction a)
  case Nil
  then show ?case using assms by (simp add: not_prefix_head)
next
  case (Cons x a)
  have "prefix p (x # a @ c # b) \<longleftrightarrow> prefix p (x # a)"
    using prefix_sep [OF assms(1), of "x # a" b] by simp
  then show ?case using Cons by simp
qed

lemma count_sub_end:
  assumes "c \<notin> set p" "p \<noteq> []"
  shows "count_sub p (a @ [c]) = count_sub p a"
  using count_sub_sep [OF assms, of a "[]"] by simp

lemma count_sub_clean:
  assumes "set u \<inter> set p = {}" "p \<noteq> []"
  shows "count_sub p (u @ b) = count_sub p b"
  using assms
proof (induction u)
  case Nil
  then show ?case by simp
next
  case (Cons x u)
  then have "x \<notin> set p" by auto
  then have "count_sub p (x # (u @ b)) = count_sub p (u @ b)"
    using Cons.prems by (simp add: not_prefix_head)
  with Cons show ?case by auto
qed

lemma set_dec_digits: "set (dec_digits n) \<subseteq> set ''0123456789''"
proof -
  define D where "D = set ''0123456789''"
  have d: "''0123456789'' ! k \<in> D" if "k < 10" for k :: nat
    unfolding D_def by (rule nth_mem) (use that in simp)
  have "set (dec_digits n) \<subseteq> D"
  proof (induction n rule: dec_digits.induct)
    case (1 n)
    show ?case
    proof (cases "n < 10")
      case True
      then show ?thesis using d [of n] by (subst dec_digits.simps) simp
    next
      case False
      have "''0123456789'' ! (n mod 10) \<in> D" by (rule d) simp
      moreover have "set (dec_digits (n div 10)) \<subseteq> D" using 1 False by simp
      ultimately show ?thesis using False by (subst dec_digits.simps) simp
    qed
  qed
  then show ?thesis by (simp only: D_def)
qed

lemma set_fmt_d: "set (fmt_d i) \<subseteq> set ''-0123456789''"
proof -
  define D where "D = set ''-0123456789''"
  have "set ''0123456789'' \<subseteq> D" unfolding D_def by (simp add: subset_insertI)
  then have "set (dec_digits (nat \<bar>i\<bar>)) \<subseteq> D"
    using set_dec_digits [of "nat \<bar>i\<bar>"] by (rule order_trans [rotated])
  moreover have "CHR ''-'' \<in> D" by (simp add: D_def)
  ultimately have "set (fmt_d i) \<subseteq> D" by (auto simp: fmt_d_def)
  then show ?thesis by (simp only: D_def)
qed

lemma set_fmt_f: "set (fmt_f n x) \<subseteq> set ''-.0123456789''"
proof -
  define D where "D = set ''-.0123456789''"
  have "set ''0123456789'' \<subseteq> D" unfolding D_def by (simp add: subset_insertI2)
  then have a: "set (dec_digits k) \<subseteq> D" for k
    using set_dec_digits [of k] by (rule order_trans [rotated])
  have z: "CHR ''0'' \<in> D" and m: "CHR ''-'' \<in> D" and p: "CHR ''.'' \<in> D"
    by (simp_all add: D_def)
  have b: "set (zero_pad n s) \<subseteq> D" if "set s \<subseteq> D" for s
    using that z by (auto simp: zero_pad_def)
  have "set (fmt_f n x) \<subseteq> D"
    using a b [OF a] m p by (auto simp: fmt_f_def Let_def)
  then show ?thesis by (simp only: D_def)
qed

lemma count_sub_suffix_le: "count_sub p b \<le> count_sub p (a @ b)"
  by (induction a) auto

lemma count_sub_zero_drop:
  assumes "count_sub p s = 0"
  shows "count_sub p (drop k s) = 0"
  using count_sub_suffix_le [of p "drop k s" "take k s"] assms by simp

lemma count_sub_zero_not_prefix:
  assumes "count_sub p s = 0" "p \<noteq> []"
  shows "\<not> prefix p s"
  using assms by (cases s) (auto split: if_splits)

lemma str_replace_prefix_tail:
  assumes "old \<noteq> []" "n0 \<notin> set q" "prefix q (str_replace old (n0 # nrest) s)"
  shows "prefix q s"
  using assms
proof (induction old "n0 # nrest" s arbitrary: q rule: str_replace.induct)
  case (1 old s)
  show ?case
  proof (cases q)
    case Nil
    then show ?thesis by simp
  next
    case (Cons y q')
    show ?thesis
    proof (cases "s = []")
      case True
      then show ?thesis
        using "1.prems" by (subst (asm) str_replace.simps) simp
    next
      case s: False
      show ?thesis
      proof (cases "prefix old s")
        case True
        then have "str_replace old (n0 # nrest) s
            = (n0 # nrest) @ str_replace old (n0 # nrest) (drop (length old) s)"
          using "1.prems"(1) s by (subst str_replace.simps) simp
        then show ?thesis using "1.prems" Cons by auto
      next
        case False
        then have eq: "str_replace old (n0 # nrest) s = hd s # str_replace old (n0 # nrest) (tl s)"
          using "1.prems"(1) s by (subst str_replace.simps) simp
        have "prefix q' (str_replace old (n0 # nrest) (tl s))" and hd: "y = hd s"
          using "1.prems"(3) unfolding eq Cons by simp_all
        moreover have "n0 \<notin> set q'" using "1.prems"(2) Cons by simp
        ultimately have "prefix q' (tl s)"
          using "1.hyps"(2) [OF "1.prems"(1) s False "1.prems"(1)] by blast
        then show ?thesis using Cons hd s by (cases s) auto
      qed
    qed
  qed
qed

lemma str_replace_prefix:
  assumes old: "old \<noteq> []" and p: "p = p0 # q" and n0: "n0 \<notin> set q"
    and new: "\<And>r. \<not> prefix p ((n0 # nrest) @ r)"
    and pre: "prefix p (str_replace old (n0 # nrest) s)"
  shows "prefix p s"
proof (cases "s = []")
  case True
  then show ?thesis using pre old by (subst (asm) str_replace.simps) simp
next
  case s: False
  show ?thesis
  proof (cases "prefix old s")
    case True
    then have "str_replace old (n0 # nrest) s
        = (n0 # nrest) @ str_replace old (n0 # nrest) (drop (length old) s)"
      using old s by (subst str_replace.simps) simp
    then show ?thesis using pre new by metis
  next
    case False
    then have eq: "str_replace old (n0 # nrest) s = hd s # str_replace old (n0 # nrest) (tl s)"
      using old s by (subst str_replace.simps) simp
    have "prefix q (str_replace old (n0 # nrest) (tl s))" and hd: "p0 = hd s"
      using pre unfolding eq p by simp_all
    then have "prefix q (tl s)"
      using str_replace_prefix_tail [OF old n0] by blast
    then show ?thesis using p hd s by (cases s) auto
  qed
qed

lemma str_replace_count_zero:
  assumes old: "old \<noteq> []" and p: "p = p0 # q" and n0: "n0 \<notin> set q"
    and new: "\<And>r. \<not> prefix p ((n0 # nrest) @ r)"
    and last: "n0 # nrest = new' @ [z]" "z \<notin> set p"
    and cnew: "count_sub p (n0 # nrest) = 0"
    and cs: "count_sub p s = 0"
  shows "count_sub p (str_replace old (n0 # nrest) s) = 0"
  using old cs
proof (induction old "n0 # nrest" s rule: str_replace.induct)
  case (1 old s)
  have pne: "p \<noteq> []" using p by simp
  show ?case
  proof (cases "s = []")
    case True
    then show ?thesis using "1.prems" by (subst str_replace.simps) simp
  next
    case s: False
    show ?thesis
    proof (cases "prefix old s")
      case True
      then have eq: "str_replace old (n0 # nrest) s
          = new' @ z # str_replace old (n0 # nrest) (drop (length old) s)"
        using "1.prems"(1) s last(1) by (subst str_replace.simps) simp
      have "count_sub p (str_replace old (n0 # nrest) (drop (length old) s)) = 0"
        using "1.hyps"(1) [OF "1.prems"(1) s True "1.prems"(1)]
          count_sub_zero_drop [OF "1.prems"(2), of "length old"] by simp
      moreover have "count_sub p new' = 0"
        using cnew count_sub_end [OF last(2) pne, of new'] last(1) by simp
      ultimately show ?thesis
        unfolding eq by (simp add: count_sub_sep [OF last(2) pne])
    next
      case False
      then have eq: "str_replace old (n0 # nrest) s = hd s # str_replace old (n0 # nrest) (tl s)"
        using "1.prems"(1) s by (subst str_replace.simps) simp
      have "count_sub p (tl s) = 0"
        using count_sub_zero_drop [OF "1.prems"(2), of 1] by (simp add: drop_Suc)
      then have tl0: "count_sub p (str_replace old (n0 # nrest) (tl s)) = 0"
        using "1.hyps"(2) [OF "1.prems"(1) s False "1.prems"(1)] by blast
      have "\<not> prefix p s"
        by (rule count_sub_zero_not_prefix [OF "1.prems"(2) pne])
      then have "\<not> prefix p (str_replace old (n0 # nrest) s)"
        using str_replace_prefix [OF "1.prems"(1) p n0 new] by blast
      then show ?thesis using tl0 unfolding eq by simp
    qed
  qed
qed

lemma digits_apart:
  "set ''-.0123456789'' \<inter> set ''ST_IsValid'' = {}"
  "set ''-.0123456789'' \<inter> set ''ST_Intersects'' = {}"
  "set ''-0123456789'' \<inter> set ''ST_IsValid'' = {}"
  "set ''-0123456789'' \<inter> set ''ST_Intersects'' = {}"
  by simp_all

lemma count_fmt_f_app:
  "count_sub ''ST_IsValid'' (fmt_f n x @ b) = count_sub ''ST_IsValid'' b"
  "count_sub ''ST_Intersects'' (fmt_f n x @ b) = count_sub ''ST_Intersects'' b"
  using set_fmt_f [of n x] digits_apart(1,2)
  by (auto intro!: count_sub_clean simp del: set_simps)

lemma count_fmt_d_app:
  "count_sub ''ST_IsValid'' (fmt_d i @ b) = count_sub ''ST_IsValid'' b"
  "count_sub ''ST_Intersects'' (fmt_d i @ b) = count_sub ''ST_Intersects'' b"
  using set_fmt_d [of i] digits_apart(3,4)
  by (auto intro!: count_sub_clean simp del: set_simps)

lemmas count_rules = count_fmt_f_app count_fmt_d_app count_sub_sep

lemma bbox_count:
  "count_sub ''ST_IsValid'' (build_query_bbox srid bounds padding) = 0"
  "count_sub ''ST_Intersects'' (build_query_bbox srid bounds padding) = 0"
  by (simp_all add: build_query_bbox_def count_rules split: prod.split)

lemma geom_count:
  assumes bb: "count_sub ''ST_IsValid'' bbox = 0" "count_sub ''ST_Intersects'' bbox = 0"
  shows "count_sub ''ST_IsValid'' (build_query_geom bbox bounds tolerance is_geo is_clipped scale) = 0"
    and "count_sub ''ST_Intersects'' (build_query_geom bbox bounds tolerance is_geo is_clipped scale) = 0"
proof -
  obtain b0 b1 b2 b3 where b: "bounds = (b0, b1, b2, b3)" by (cases bounds) auto
  define g0 where "g0 = ''q.__geometry__''"
  define g1 where "g1 = (if is_clipped then ''ST_Intersection('' @ g0 @ '', '' @ bbox @ '')'' else g0)"
  define g2 where "g2 = (case tolerance of None \<Rightarrow> g1
      | Some t \<Rightarrow> ''ST_SimplifyPreserveTopology('' @ g1 @ '', '' @ fmt_f 2 t @ '')'')"
  define g3 where "g3 = (if is_geo then ''ST_Transform('' @ g2 @ '', 4326)'' else g2)"
  define g4 where "g4 = (case scale of None \<Rightarrow> g3
      | Some s \<Rightarrow> if s = 0 then g3
          else ''ST_TransScale('' @ g3 @ '', '' @ fmt_f 2 (- b0) @ '', '' @ fmt_f 2 (- b1)
            @ '', ('' @ fmt_f 2 s @ '' / ('' @ fmt_f 2 b2 @ '' - '' @ fmt_f 2 b0
            @ '')), ('' @ fmt_f 2 s @ '' / ('' @ fmt_f 2 b3 @ '' - '' @ fmt_f 2 b1 @ '')))'')"
  have e: "build_query_geom bbox bounds tolerance is_geo is_clipped scale = g4"
    by (simp only: build_query_geom_def b Let_def g0_def g1_def g2_def g3_def g4_def prod.case)
  have c0: "count_sub ''ST_IsValid'' g0 = 0" "count_sub ''ST_Intersects'' g0 = 0"
    by (simp_all add: g0_def)
  have c1: "count_sub ''ST_IsValid'' g1 = 0" "count_sub ''ST_Intersects'' g1 = 0"
    using c0 bb unfolding g1_def by (simp_all add: count_rules)
  have c2: "count_sub ''ST_IsValid'' g2 = 0" "count_sub ''ST_Intersects'' g2 = 0"
    using c1 unfolding g2_def by (simp_all add: count_rules split: option.split)
  have c3: "count_sub ''ST_IsValid'' g3 = 0" "count_sub ''ST_Intersects'' g3 = 0"
    using c2 unfolding g3_def by (simp_all add: count_rules)
  have c4: "count_sub ''ST_IsValid'' g4 = 0" "count_sub ''ST_Intersects'' g4 = 0"
    using c3 unfolding g4_def by (simp_all add: count_rules split: option.split)
  show "count_sub ''ST_IsValid'' (build_query_geom bbox bounds tolerance is_geo is_clipped scale) = 0"
    and "count_sub ''ST_Intersects'' (build_query_geom bbox bounds tolerance is_geo is_clipped scale) = 0"
    using c4 by (simp_all only: e)
qed

lemma str_join_count:
  assumes "\<forall>x\<in>set xs. count_sub p x = 0" "CHR '','' \<notin> set p" "CHR '' '' \<notin> set p" "p \<noteq> []"
  shows "count_sub p (str_join '', '' xs) = 0"
  using assms(1)
proof (induction "'', ''" xs rule: str_join.induct)
  case 1
  then show ?case by simp
next
  case (2 x)
  then show ?case by simp
next
  case (3 x y ys)
  then have "count_sub p (str_join '', '' (y # ys)) = 0" by simp
  moreover have "count_sub p x = 0" using 3 by simp
  ultimately show ?case
    using assms(2-4) by (simp add: count_sub_sep count_sub_skip del: count_sub.simps)
qed

lemma quoted_column_count:
  "count_sub ''ST_IsValid'' c = 0 \<Longrightarrow> count_sub ''ST_IsValid'' (quoted_column c) = 0"
  "count_sub ''ST_Intersects'' c = 0 \<Longrightarrow> count_sub ''ST_Intersects'' (quoted_column c) = 0"
  by (simp_all add: quoted_column_def count_sub_sep)

lemma id_column_count:
  "count_sub ''ST_IsValid'' ''Substr(MD5(ST_AsBinary(q.__geometry__)), 1, 10) AS __id__'' = 0"
  "count_sub ''ST_Intersects'' ''Substr(MD5(ST_AsBinary(q.__geometry__)), 1, 10) AS __id__'' = 0"
  by simp_all

lemma build_query_columns_eq:
  assumes "build_query_columns cols = Inr columns"
  shows "columns = str_join '', '' (map quoted_column (filter (\<lambda>c. c \<noteq> ''__geometry__'') cols)
      @ (if ''__id__'' \<notin> set cols
         then [''Substr(MD5(ST_AsBinary(q.__geometry__)), 1, 10) AS __id__''] else []))"
  using assms by (simp add: build_query_columns_def Let_def split: if_splits)

lemma columns_count:
  assumes "build_query_columns cols = Inr columns"
  shows "\<forall>c\<in>set cols. count_sub ''ST_IsValid'' c = 0 \<Longrightarrow> count_sub ''ST_IsValid'' columns = 0"
    and "\<forall>c\<in>set cols. count_sub ''ST_Intersects'' c = 0 \<Longrightarrow> count_sub ''ST_Intersects'' columns = 0"
proof -
  note cols = build_query_columns_eq [OF assms]
  show "count_sub ''ST_IsValid'' columns = 0" if h: "\<forall>c\<in>set cols. count_sub ''ST_IsValid'' c = 0"
  proof (subst cols, rule str_join_count)
    show "\<forall>x\<in>set (map quoted_column (filter (\<lambda>c. c \<noteq> ''__geometry__'') cols)
      @ (if ''__id__'' \<notin> set cols
         then [''Substr(MD5(ST_AsBinary(q.__geometry__)), 1, 10) AS __id__''] else [])).
        count_sub ''ST_IsValid'' x = 0"
      using h quoted_column_count(1) id_column_count(1)
      by (auto simp del: count_sub.simps)
  qed simp_all
  show "count_sub ''ST_Intersects'' columns = 0" if h: "\<forall>c\<in>set cols. count_sub ''ST_Intersects'' c = 0"
  proof (subst cols, rule str_join_count)
    show "\<forall>x\<in>set (map quoted_column (filter (\<lambda>c. c \<noteq> ''__geometry__'') cols)
      @ (if ''__id__'' \<notin> set cols
         then [''Substr(MD5(ST_AsBinary(q.__geometry__)), 1, 10) AS __id__''] else [])).
        count_sub ''ST_Intersects'' x = 0"
      using h quoted_column_count(2) id_column_count(2)
      by (auto simp del: count_sub.simps)
  qed simp_all
qed

lemma bbox_shape:
  "\<exists>nrest new'. build_query_bbox srid bounds padding = CHR ''S'' # nrest
      \<and> CHR ''S'' # nrest = new' @ [CHR '')'']"
proof -
  obtain b0 b1 b2 b3 where b: "bounds = (b0, b1, b2, b3)" by (cases bounds) auto
  define Y where "Y = ''ST_MakeBox2D(ST_MakePoint('' @ fmt_f 2 (b0 - padding) @ '', ''
          @ fmt_f 2 (b1 - padding) @ ''), ST_MakePoint('' @ fmt_f 2 (b2 + padding) @ '', ''
          @ fmt_f 2 (b3 + padding) @ ''))'' @ '', '' @ fmt_d srid"
  have 1: "build_query_bbox srid bounds padding = CHR ''S'' # (''T_SetSRID('' @ Y @ '')'')"
    by (simp add: build_query_bbox_def b Y_def)
  have 2: "CHR ''S'' # (''T_SetSRID('' @ Y @ '')'') = (''ST_SetSRID('' @ Y) @ [CHR '')'']"
    by simp
  show ?thesis
    by (rule exI [of _ "''T_SetSRID('' @ Y @ '')''"], rule exI [of _ "''ST_SetSRID('' @ Y"])
       (simp only: 1 2 simp_thms)
qed

lemma bbox_not_prefix:
  "\<not> prefix ''ST_IsValid'' (build_query_bbox srid bounds padding @ r)"
  "\<not> prefix ''ST_Intersects'' (build_query_bbox srid bounds padding @ r)"
  by (simp_all add: build_query_bbox_def split: prod.split)

lemma subquery_count_gen:
  assumes pq: "p = CHR ''S'' # q" and n0: "CHR ''S'' \<notin> set q" and z: "CHR '')'' \<notin> set p"
    and np: "\<And>r. \<not> prefix p (build_query_bbox srid bounds padding @ r)"
    and cn: "count_sub p (build_query_bbox srid bounds padding) = 0"
    and sq: "count_sub p subquery = 0"
  shows "count_sub p (str_replace ''!bbox!'' (build_query_bbox srid bounds padding) subquery) = 0"
proof -
  obtain nrest new' where sh: "build_query_bbox srid bounds padding = CHR ''S'' # nrest"
      "CHR ''S'' # nrest = new' @ [CHR '')'']"
    using bbox_shape by blast
  have old: "''!bbox!'' \<noteq> []" by simp
  have np': "\<not> prefix p ((CHR ''S'' # nrest) @ r)" for r
    using np [of r] unfolding sh(1) .
  have cn': "count_sub p (CHR ''S'' # nrest) = 0"
    using cn unfolding sh(1) .
  show ?thesis
    unfolding sh(1) by (rule str_replace_count_zero [OF old pq n0 np' sh(2) z cn' sq])
qed

lemma subquery_count:
  "count_sub ''ST_IsValid'' subquery = 0 \<Longrightarrow>
     count_sub ''ST_IsValid'' (str_replace ''!bbox!'' (build_query_bbox srid bounds padding) subquery) = 0"
  "count_sub ''ST_Intersects'' subquery = 0 \<Longrightarrow>
     count_sub ''ST_Intersects'' (str_replace ''!bbox!'' (build_query_bbox srid bounds padding) subquery) = 0"
  by (rule subquery_count_gen [where q = "''T_IsValid''"]; simp add: bbox_not_prefix bbox_count)
     (rule subquery_count_gen [where q = "''T_Intersects''"]; simp add: bbox_not_prefix bbox_count)

lemma build_query_text:
  assumes "build_query_columns cols = Inr columns"
  shows "build_query srid subquery (Some cols) bounds tolerance is_geo is_clipped padding scale =
    Inr (''SELECT '' @ columns @ '','' @ nl @
         ''                     ST_AsBinary(''
           @ build_query_geom (build_query_bbox srid bounds padding) bounds tolerance is_geo is_clipped scale
           @ '') AS __geometry__'' @ nl @
         ''              FROM ('' @ nl @
         ''                '' @ str_replace ''!bbox!'' (build_query_bbox srid bounds padding) subquery @ nl @
         ''                ) AS q'' @ nl @
         ''              '' @ build_query_where (build_query_bbox srid bounds padding))"
  using assms by (simp add: build_query_def Let_def)

lemma build_query_columns_ok:
  assumes "''__geometry__'' \<in> set cols"
  shows "\<exists>columns. build_query_columns cols = Inr columns"
  using assms by (simp add: build_query_columns_def Let_def)

lemma query_text_count:
  assumes "count_sub ''ST_IsValid'' columns = 0" "count_sub ''ST_IsValid'' geom = 0"
    "count_sub ''ST_IsValid'' subq = 0" "count_sub ''ST_IsValid'' bbox = 0"
    "count_sub ''ST_Intersects'' columns = 0" "count_sub ''ST_Intersects'' geom = 0"
    "count_sub ''ST_Intersects'' subq = 0" "count_sub ''ST_Intersects'' bbox = 0"
  defines "q \<equiv> ''SELECT '' @ columns @ '','' @ nl @
         ''                     ST_AsBinary('' @ geom @ '') AS __geometry__'' @ nl @
         ''              FROM ('' @ nl @
         ''                '' @ subq @ nl @
         ''                ) AS q'' @ nl @
         ''              '' @ build_query_where bbox"
  shows "count_sub ''ST_IsValid'' q = 1" and "count_sub ''ST_Intersects'' q = 1"
  using assms(1-8) unfolding q_def
  by (simp_all add: build_query_where_def nl_def count_sub_sep)

text \<open>
  Claim C4. Whatever the clip flag, the tolerance (present or absent), the padding and the
  scale, the query that \<open>build_query\<close> returns has exactly one \<open>ST_IsValid\<close> validity
  filter and exactly one \<open>ST_Intersects\<close> filter against the bounding box: the text ends
  with the fixed \<^verbatim>\<open>WHERE\<close> clause of lines 477-479 (the validity filter, the
  index-assisted \<^verbatim>\<open>&&\<close> overlap test and \<open>ST_Intersects\<close>, both against the same
  padded box), and neither token occurs anywhere else in it. The caller's query template
  and column names are copied into the text as they are, so they are taken not to contain
  the two tokens themselves; a query is returned whenever the column set has the
  \<open>__geometry__\<close> column.
\<close>

theorem build_query_filters:
  assumes "''__geometry__'' \<in> set cols"
    and "count_sub ''ST_IsValid'' subquery = 0 \<and> count_sub ''ST_Intersects'' subquery = 0"
    and "\<forall>c\<in>set cols. count_sub ''ST_IsValid'' c = 0 \<and> count_sub ''ST_Intersects'' c = 0"
  shows "\<exists>q. build_query srid subquery (Some cols) bounds tolerance is_geo is_clipped padding scale = Inr q
      \<and> count_sub ''ST_IsValid'' q = 1 \<and> count_sub ''ST_Intersects'' q = 1
      \<and> suffix (build_query_where (build_query_bbox srid bounds padding)) q"
proof -
  obtain columns where c: "build_query_columns cols = Inr columns"
    using build_query_columns_ok [OF assms(1)] by blast
  define bbox where "bbox = build_query_bbox srid bounds padding"
  define geom where "geom = build_query_geom bbox bounds tolerance is_geo is_clipped scale"
  define subq where "subq = str_replace ''!bbox!'' bbox subquery"
  define q where "q = ''SELECT '' @ columns @ '','' @ nl @
         ''                     ST_AsBinary('' @ geom @ '') AS __geometry__'' @ nl @
         ''              FROM ('' @ nl @
         ''                '' @ subq @ nl @
         ''                ) AS q'' @ nl @
         ''              '' @ build_query_where bbox"
  have r: "build_query srid subquery (Some cols) bounds tolerance is_geo is_clipped padding scale = Inr q"
    unfolding q_def subq_def geom_def bbox_def by (rule build_query_text [OF c])
  have b: "count_sub ''ST_IsValid'' bbox = 0" "count_sub ''ST_Intersects'' bbox = 0"
    unfolding bbox_def by (rule bbox_count)+
  have g: "count_sub ''ST_IsValid'' geom = 0" "count_sub ''ST_Intersects'' geom = 0"
    unfolding geom_def by (rule geom_count [OF b])+
  have s: "count_sub ''ST_IsValid'' subq = 0" "count_sub ''ST_Intersects'' subq = 0"
    unfolding subq_def bbox_def using assms(2) by (simp_all add: subquery_count)
  have k: "count_sub ''ST_IsValid'' columns = 0" "count_sub ''ST_Intersects'' columns = 0"
    using columns_count [OF c] assms(3) by blast+
  have n: "count_sub ''ST_IsValid'' q = 1" "count_sub ''ST_Intersects'' q = 1"
    unfolding q_def
    by (rule query_text_count [OF k(1) g(1) s(1) b(1) k(2) g(2) s(2) b(2)])+
  have "suffix (build_query_where bbox) q"
    unfolding q_def suffix_def by (metis append.assoc)
  with r n show ?thesis unfolding bbox_def by blast
qed

theorem build_query_filters_witness:
  "\<exists>q. build_query 900913 ''SELECT way AS __geometry__, name FROM roads WHERE way && !bbox!''
        (Some [''__geometry__'', ''name'']) (0, 0, 100, 100) (Some (5 / 2)) False True 10 (Some 4096) = Inr q
      \<and> count_sub ''ST_IsValid'' q = 1 \<and> count_sub ''ST_Intersects'' q = 1
      \<and> suffix (build_query_where (build_query_bbox 900913 (0, 0, 100, 100) 10)) q"
  by (rule build_query_filters) simp_all

section \<open>The order of the geometry wrappers\<close>










section \<open>The database and column introspection\<close>

text \<open>
  A row of a \<^verbatim>\<open>RealDictCursor\<close> is a dictionary from column names to values, here
  the list of its items; \<^verbatim>\<open>NULL\<close> is \<open>None\<close>. A cursor answers a query text with
  the rows of the result or with the error that \<^verbatim>\<open>execute\<close> raises.
  \<open>dbinfo\<close> stands for what \<^verbatim>\<open>connect(**dbinfo)\<close> of \<^verbatim>\<open>Connection.__enter__\<close>
  does with the connection parameters: raise, or give a cursor.
\<close>

datatype sql_value = SqlInt int | SqlReal real | SqlText string | SqlBytes string

type_synonym row = "(string \<times> sql_value option) list"

type_synonym cursor = "string \<Rightarrow> py_error + row list"

type_synonym dbinfo = "py_error + cursor"

text \<open>
  \<^verbatim>\<open>set(row.keys())\<close>: the column set, as the list of its elements (Python fixes no
  iteration order for a set; nothing below depends on the order chosen here).
\<close>

definition column_names :: "row \<Rightarrow> string list" where
  "column_names r = remdups (map fst r)"

text \<open>Line 397, the loop condition: the squared x-extent is below the cutoff.\<close>

definition below_cutoff :: "bounds \<Rightarrow> bool" where
  "below_cutoff bounds =
     (case bounds of (b0, b1, b2, b3) \<Rightarrow> \<bar>b2 - b0\<bar> * \<bar>b2 - b0\<bar> < 1610000000000000)"

text \<open>Lines 398-403: the probe, limited to one row.\<close>

definition probe_query :: "int \<Rightarrow> string \<Rightarrow> bounds \<Rightarrow> string" where
  "probe_query srid subquery bounds =
     (case bounds of (b0, b1, b2, b3) \<Rightarrow>
      let bbox = ''ST_MakeBox2D(ST_MakePoint('' @ fmt_f 6 b0 @ '', '' @ fmt_f 6 b1
                   @ ''), ST_MakePoint('' @ fmt_f 6 b2 @ '', '' @ fmt_f 6 b3 @ ''))'';
          bbox = ''ST_SetSRID('' @ bbox @ '', '' @ fmt_d srid @ '')'';
          query = str_replace ''!bbox!'' bbox subquery
      in query @ nl @ '' LIMIT 1'')"

text \<open>Lines 410-413: the box grown by 3.5 times its width and height on each side.\<close>

definition expand_bounds :: "bounds \<Rightarrow> bounds" where
  "expand_bounds bounds =
     (case bounds of (b0, b1, b2, b3) \<Rightarrow>
        (b0 - (b2 - b0) * 3.5, b1 - (b3 - b1) * 3.5, b2 + (b2 - b0) * 3.5, b3 + (b3 - b1) * 3.5))"

text \<open>
  Lines 397-418, the \<^verbatim>\<open>while\<close> loop. \<open>None\<close> of the outer option is a loop that
  never ends; \<open>Some (Inr None)\<close> is the loop left at the cutoff, after which the function
  returns \<^verbatim>\<open>None\<close> implicitly.
\<close>

partial_function (option) probe_loop ::
  "cursor \<Rightarrow> int \<Rightarrow> string \<Rightarrow> bounds \<Rightarrow> (py_error + string list option) option" where
  "probe_loop db srid subquery bounds =
     (if below_cutoff bounds then
        (case db (probe_query srid subquery bounds) of
           Inl e \<Rightarrow> Some (Inl e)
         | Inr [] \<Rightarrow> probe_loop db srid subquery (expand_bounds bounds)
         | Inr (r # _) \<Rightarrow> Some (Inr (Some (column_names r))))
      else Some (Inr None))"

definition query_columns ::
  "dbinfo \<Rightarrow> int \<Rightarrow> string \<Rightarrow> bounds \<Rightarrow> (py_error + string list option) option" where
  "query_columns dbinfo srid subquery bounds =
     (case dbinfo of
        Inl e \<Rightarrow> Some (Inl e)
      | Inr db \<Rightarrow> probe_loop db srid subquery bounds)"

text \<open>The same loop with a budget of \<open>n\<close> probes; \<open>None\<close> when the budget runs out.\<close>

fun probe_loop_bounded ::
  "nat \<Rightarrow> cursor \<Rightarrow> int \<Rightarrow> string \<Rightarrow> bounds \<Rightarrow> (py_error + string list option) option" where
  "probe_loop_bounded n db srid subquery bounds =
     (if below_cutoff bounds then
        (case n of
           0 \<Rightarrow> None
         | Suc m \<Rightarrow>
            (case db (probe_query srid subquery bounds) of
               Inl e \<Rightarrow> Some (Inl e)
             | Inr [] \<Rightarrow> probe_loop_bounded m db srid subquery (expand_bounds bounds)
             | Inr (r # _) \<Rightarrow> Some (Inr (Some (column_names r)))))
      else Some (Inr None))"

declare probe_loop_bounded.simps [simp del]

text \<open>
  The x-extent of a box, and the bound on the number of probes as the specification words
  it: \<open>ceil(log(cutoff_width / initial_width) / log(8))\<close>, the cutoff width being the
  square root of the cutoff.
\<close>

definition x_extent :: "bounds \<Rightarrow> real" where
  "x_extent bounds = (case bounds of (b0, b1, b2, b3) \<Rightarrow> b2 - b0)"

definition probe_bound :: "bounds \<Rightarrow> nat" where
  "probe_bound bounds = nat \<lceil>log 8 (sqrt 1610000000000000 / \<bar>x_extent bounds\<bar>)\<rceil>"

lemma x_extent_expand: "x_extent (expand_bounds bounds) = 8 * x_extent bounds"
  by (cases bounds) (simp add: x_extent_def expand_bounds_def)


lemma below_cutoff_extent:
  "below_cutoff bounds \<longleftrightarrow> (x_extent bounds)\<^sup>2 < 1610000000000000"
  by (cases bounds) (simp add: below_cutoff_def x_extent_def power2_eq_square)

lemma bounded_imp_loop:
  "probe_loop_bounded n db srid subquery bounds = Some r \<Longrightarrow>
     probe_loop db srid subquery bounds = Some r"
proof (induction n arbitrary: bounds)
  case 0
  then show ?case
    by (subst probe_loop.simps, subst (asm) probe_loop_bounded.simps) (simp split: if_splits)
next
  case (Suc n)
  show ?case
  proof (cases "below_cutoff bounds")
    case False
    with Suc.prems show ?thesis
      by (subst probe_loop.simps, subst (asm) probe_loop_bounded.simps) simp
  next
    case True
    show ?thesis
    proof (cases "db (probe_query srid subquery bounds)")
      case (Inl e)
      with True Suc.prems show ?thesis
        by (subst probe_loop.simps, subst (asm) probe_loop_bounded.simps) simp
    next
      case (Inr rows)
      show ?thesis
      proof (cases rows)
        case Nil
        with True Inr Suc.prems
        have "probe_loop_bounded n db srid subquery (expand_bounds bounds) = Some r"
          by (subst (asm) probe_loop_bounded.simps) simp
        then have "probe_loop db srid subquery (expand_bounds bounds) = Some r"
          by (rule Suc.IH)
        with True Inr Nil show ?thesis
          by (subst probe_loop.simps) simp
      next
        case (Cons a list)
        with True Inr Suc.prems show ?thesis
          by (subst probe_loop.simps, subst (asm) probe_loop_bounded.simps) simp
      qed
    qed
  qed
qed


lemma probe_bound_enough:
  assumes "x_extent bounds \<noteq> 0"
  shows "1610000000000000 \<le> (8 ^ probe_bound bounds * x_extent bounds)\<^sup>2"
proof -
  define w where "w = \<bar>x_extent bounds\<bar>"
  define x where "x = sqrt 1610000000000000 / w"
  have w: "0 < w" using assms by (simp add: w_def)
  have x: "0 < x" using w by (simp add: x_def)
  have "log 8 x \<le> real_of_int \<lceil>log 8 x\<rceil>" by simp
  also have "\<dots> \<le> real (probe_bound bounds)"
    by (simp add: probe_bound_def x_def w_def)
  finally have "log 8 x \<le> real (probe_bound bounds)" .
  then have "x \<le> 8 powr real (probe_bound bounds)"
    using x by (simp add: log_le_iff)
  then have "x \<le> 8 ^ probe_bound bounds"
    by (simp add: powr_realpow)
  then have "sqrt 1610000000000000 \<le> 8 ^ probe_bound bounds * w"
    using w by (simp add: x_def pos_divide_le_eq)
  then have "(sqrt 1610000000000000)\<^sup>2 \<le> (8 ^ probe_bound bounds * w)\<^sup>2"
    by (rule power_mono) simp
  then show ?thesis by (simp add: w_def power_mult_distrib)
qed




lemma bounded_exhausted:
  assumes "1610000000000000 \<le> (8 ^ n * x_extent bounds)\<^sup>2"
    and "\<forall>k. below_cutoff ((expand_bounds ^^ k) bounds) \<longrightarrow>
           db (probe_query srid subquery ((expand_bounds ^^ k) bounds)) = Inr []"
  shows "probe_loop_bounded n db srid subquery bounds = Some (Inr None)"
  using assms
proof (induction n arbitrary: bounds)
  case 0
  then have "\<not> below_cutoff bounds" by (simp add: below_cutoff_extent)
  then show ?case by (subst probe_loop_bounded.simps) simp
next
  case (Suc n)
  have 1: "1610000000000000 \<le> (8 ^ n * x_extent (expand_bounds bounds))\<^sup>2"
    using Suc.prems(1) by (simp add: x_extent_expand mult.assoc mult.left_commute)
  have 2: "\<forall>k. below_cutoff ((expand_bounds ^^ k) (expand_bounds bounds)) \<longrightarrow>
           db (probe_query srid subquery ((expand_bounds ^^ k) (expand_bounds bounds))) = Inr []"
  proof (intro allI impI)
    fix k assume "below_cutoff ((expand_bounds ^^ k) (expand_bounds bounds))"
    then show "db (probe_query srid subquery ((expand_bounds ^^ k) (expand_bounds bounds))) = Inr []"
      using Suc.prems(2) [rule_format, of "Suc k"] by (simp add: funpow_swap1)
  qed
  have ih: "probe_loop_bounded n db srid subquery (expand_bounds bounds) = Some (Inr None)"
    by (rule Suc.IH [OF 1 2])
  show ?case
  proof (cases "below_cutoff bounds")
    case True
    then have "db (probe_query srid subquery bounds) = Inr []"
      using Suc.prems(2) [rule_format, of 0] by simp
    with True ih show ?thesis by (subst probe_loop_bounded.simps) simp
  next
    case False
    then show ?thesis by (subst probe_loop_bounded.simps) simp
  qed
qed


text \<open>
  Claim C7. When no probe made below the cutoff returns a row, \<open>query_columns\<close> does not
  raise: the loop stops at the cutoff and the function returns \<^verbatim>\<open>None\<close>, no column
  set.
\<close>

theorem exhausted_returns_none:
  assumes "x_extent bounds \<noteq> 0"
    and "\<forall>k. below_cutoff ((expand_bounds ^^ k) bounds) \<longrightarrow>
           db (probe_query srid subquery ((expand_bounds ^^ k) bounds)) = Inr []"
  shows "query_columns (Inr db) srid subquery bounds = Some (Inr None)"
proof -
  have "probe_loop_bounded (probe_bound bounds) db srid subquery bounds = Some (Inr None)"
    by (rule bounded_exhausted [OF probe_bound_enough [OF assms(1)] assms(2)])
  then show ?thesis by (simp add: query_columns_def bounded_imp_loop)
qed

theorem exhausted_returns_none_witness:
  "query_columns (Inr (\<lambda>q. Inr [])) 900913 ''SELECT way AS __geometry__ FROM roads WHERE way && !bbox!''
     (0, 0, 10, 10) = Some (Inr None)"
  by (rule exhausted_returns_none) (simp_all add: x_extent_def)









section \<open>Features and the single-layer responses\<close>

text \<open>
  Lines 420-439, \<open>get_features\<close>. A feature is the tuple \<^verbatim>\<open>(wkb, prop)\<close> or
  \<^verbatim>\<open>(wkb, prop, id)\<close>; \<open>wkb\<close> is the value of the geometry column (its bytes),
  \<open>prop\<close> the other non-null columns in row order, and the id is the value of
  \<open>__id__\<close>, which may be \<^verbatim>\<open>None\<close>. A row without the geometry key raises
  \<open>KeyError\<close>.
\<close>

datatype feature =
    Feature2 sql_value "(string \<times> sql_value) list"
  | Feature3 sql_value "(string \<times> sql_value) list" "sql_value option"

definition row_properties :: "row \<Rightarrow> (string \<times> sql_value) list" where
  "row_properties r =
     concat (map (\<lambda>(k, v). case v of
                     None \<Rightarrow> []
                   | Some x \<Rightarrow> if k \<noteq> ''__geometry__'' \<and> k \<noteq> ''__id__'' then [(k, x)] else []) r)"

fun rows_features :: "row list \<Rightarrow> py_error + feature list" where
  "rows_features [] = Inr []"
| "rows_features (r # rs) =
     (case map_of r ''__geometry__'' of
        None \<Rightarrow> Inl (KeyError ''__geometry__'')
      | Some None \<Rightarrow> rows_features rs
      | Some (Some wkb) \<Rightarrow>
          (case rows_features rs of
             Inl e \<Rightarrow> Inl e
           | Inr features \<Rightarrow>
               (case map_of r ''__id__'' of
                  Some i \<Rightarrow> Inr (Feature3 wkb (row_properties r) i # features)
                | None \<Rightarrow> Inr (Feature2 wkb (row_properties r) # features))))"

definition get_features :: "dbinfo \<Rightarrow> string \<Rightarrow> py_error + feature list" where
  "get_features dbinfo query =
     (case dbinfo of
        Inl e \<Rightarrow> Inl e
      | Inr db \<Rightarrow> (case db query of Inl e \<Rightarrow> Inl e | Inr rows \<Rightarrow> rows_features rows))"

text \<open>
  A tile coordinate, and the call that \<open>save\<close> makes on an encoder module: the module
  and the arguments after the output file. The encoders themselves are outside this
  file of the repository.
\<close>

record coordinate =
  coord_row :: int
  coord_column :: int
  coord_zoom :: int

datatype codec = Mvt | Geojson | Topojson | Oscimap | Mapbox

datatype json =
    JObject "(string \<times> json) list"
  | JArray "json list"
  | JString string
  | JNumber real
  | JBool bool
  | JNull

datatype py_arg =
    AFeatures "feature list"
  | AInt int
  | ABool bool
  | ABounds bounds
  | ACoord coordinate
  | AStr string
  | ANone
  | ANames "string list"
  | ATiles "json list"
  | AConfig
  | AFeatureLayers "(string \<times> feature list) list"

datatype codec_call = Encode codec "py_arg list" | Merge codec "py_arg list"

text \<open>
  Lines 255-271, \<open>Response.__init__\<close>. The padding and extents of the two binary
  codecs are constants of modules that are not part of this file; they are parameters
  here. The arguments of a call are evaluated left to right, so the table is indexed
  before the third and before the fourth query is built.
\<close>

record codec_constants =
  oscimap_padding :: real
  oscimap_extents :: real
  mapbox_padding :: real
  mapbox_extents :: real

record response =
  r_dbinfo :: dbinfo
  r_bounds :: bounds
  r_zoom :: int
  r_clip :: bool
  r_coord :: coordinate
  r_layer_name :: string
  r_query :: "(string \<times> string) list"

definition new_response ::
  "codec_constants \<Rightarrow> dbinfo \<Rightarrow> int \<Rightarrow> string \<Rightarrow> string list option \<Rightarrow> bounds \<Rightarrow> real option
     \<Rightarrow> int \<Rightarrow> bool \<Rightarrow> coordinate \<Rightarrow> string \<Rightarrow> py_error + response" where
  "new_response consts dbinfo srid subquery columns bounds tolerance zoom clip coord layer_name =
     (case build_query srid subquery columns bounds tolerance True clip 0 None of
        Inl e \<Rightarrow> Inl e
      | Inr geo_query \<Rightarrow>
     (case build_query srid subquery columns bounds tolerance False clip 0 None of
        Inl e \<Rightarrow> Inl e
      | Inr merc_query \<Rightarrow>
     (case py_index tolerances (coord_zoom coord) of
        Inl e \<Rightarrow> Inl e
      | Inr t \<Rightarrow>
     (case build_query srid subquery columns bounds tolerance False clip
             (oscimap_padding consts * t) (Some (oscimap_extents consts)) of
        Inl e \<Rightarrow> Inl e
      | Inr oscimap_query \<Rightarrow>
     (case py_index tolerances (coord_zoom coord) of
        Inl e \<Rightarrow> Inl e
      | Inr t' \<Rightarrow>
     (case build_query srid subquery columns bounds tolerance False clip
             (mapbox_padding consts * t') (Some (mapbox_extents consts)) of
        Inl e \<Rightarrow> Inl e
      | Inr mapbox_query \<Rightarrow>
          Inr \<lparr>r_dbinfo = dbinfo, r_bounds = bounds, r_zoom = zoom, r_clip = clip,
               r_coord = coord, r_layer_name = layer_name,
               r_query = [(''TopoJSON'', geo_query), (''JSON'', geo_query), (''MVT'', merc_query),
                          (''OpenScienceMap'', oscimap_query), (''Mapbox'', mapbox_query)]\<rparr>))))))"

text \<open>
  Lines 285-287 and 314-316: the corners of the bounds as longitude and latitude.
  \<open>projLocation\<close> is \<^verbatim>\<open>SphericalMercator().projLocation\<close> of the host framework, a
  parameter here.
\<close>

definition geographic_bounds :: "(real \<times> real \<Rightarrow> real \<times> real) \<Rightarrow> bounds \<Rightarrow> bounds" where
  "geographic_bounds projLocation bounds =
     (case bounds of (b0, b1, b2, b3) \<Rightarrow>
        (case projLocation (b0, b1) of (ll_lon, ll_lat) \<Rightarrow>
        (case projLocation (b2, b3) of (ur_lon, ur_lat) \<Rightarrow> (ll_lon, ll_lat, ur_lon, ur_lat))))"

text \<open>
  Lines 273-296, \<open>Response.save\<close>. \<^verbatim>\<open>self.query[format]\<close> is looked up first, so a
  format that is not a key raises \<open>KeyError\<close> before the chain of comparisons.
\<close>

definition response_save ::
  "(real \<times> real \<Rightarrow> real \<times> real) \<Rightarrow> response \<Rightarrow> string \<Rightarrow> py_error + codec_call" where
  "response_save projLocation self format =
     (case map_of (r_query self) format of
        None \<Rightarrow> Inl (KeyError format)
      | Some query \<Rightarrow>
          (case get_features (r_dbinfo self) query of
             Inl e \<Rightarrow> Inl e
           | Inr features \<Rightarrow>
               if format = ''MVT'' then Inr (Encode Mvt [AFeatures features])
               else if format = ''JSON'' then
                 Inr (Encode Geojson [AFeatures features, AInt (r_zoom self), ABool (r_clip self)])
               else if format = ''TopoJSON'' then
                 Inr (Encode Topojson [AFeatures features,
                        ABounds (geographic_bounds projLocation (r_bounds self)), ABool (r_clip self)])
               else if format = ''OpenScienceMap'' then
                 Inr (Encode Oscimap [AFeatures features, ACoord (r_coord self), AStr (r_layer_name self)])
               else if format = ''Mapbox'' then
                 Inr (Encode Mapbox [AFeatures features, ACoord (r_coord self), AStr (r_layer_name self)])
               else Inl (ValueError (format @ '' is not supported''))))"

text \<open>Lines 304-325, \<open>EmptyResponse.save\<close>; an empty response holds its bounds only.\<close>

definition empty_response_save ::
  "(real \<times> real \<Rightarrow> real \<times> real) \<Rightarrow> bounds \<Rightarrow> string \<Rightarrow> py_error + codec_call" where
  "empty_response_save projLocation bounds format =
     (if format = ''MVT'' then Inr (Encode Mvt [AFeatures []])
      else if format = ''JSON'' then Inr (Encode Geojson [AFeatures [], AInt 0, ABool False])
      else if format = ''TopoJSON'' then
        Inr (Encode Topojson [AFeatures [], ABounds (geographic_bounds projLocation bounds), ABool False])
      else if format = ''OpenScienceMap'' then Inr (Encode Oscimap [AFeatures [], ANone])
      else if format = ''Mapbox'' then Inr (Encode Mapbox [AFeatures [], ANone])
      else Inl (ValueError (format @ '' is not supported'')))"

lemma get_features_no_rows:
  "db query = Inr [] \<Longrightarrow> get_features (Inr db) query = Inr []"
  by (simp add: get_features_def)

text \<open>
  Claim C2, as stated: for every supported format \<open>EmptyResponse.save\<close> calls the same
  encoder with the same context arguments as \<open>Response.save\<close> does for a query without
  rows. For a response at zoom 5 with clipping on, whose queries return no row, the
  GeoJSON encoder is called with zoom 5 and clip \<^verbatim>\<open>True\<close>, while the empty response
  of the same bounds calls it with zoom 0 and clip \<^verbatim>\<open>False\<close>.
\<close>

theorem empty_response_context_counterexample:
  "response_save (\<lambda>p. p)
      \<lparr>r_dbinfo = Inr (\<lambda>q. Inr []), r_bounds = (0, 0, 100, 100), r_zoom = 5, r_clip = True,
       r_coord = \<lparr>coord_row = 12, coord_column = 17, coord_zoom = 5\<rparr>, r_layer_name = ''roads'',
       r_query = [(''TopoJSON'', ''SELECT 1 AS geo''), (''JSON'', ''SELECT 1 AS geo''),
                  (''MVT'', ''SELECT 1 AS merc''), (''OpenScienceMap'', ''SELECT 1 AS oscimap''),
                  (''Mapbox'', ''SELECT 1 AS mapbox'')]\<rparr> ''JSON''
     = Inr (Encode Geojson [AFeatures [], AInt 5, ABool True])
   \<and> empty_response_save (\<lambda>p. p) (0, 0, 100, 100) ''JSON''
     = Inr (Encode Geojson [AFeatures [], AInt 0, ABool False])
   \<and> Encode Geojson [AFeatures [], AInt 5, ABool True]
     \<noteq> Encode Geojson [AFeatures [], AInt 0, ABool False]"
  by (simp add: response_save_def empty_response_save_def get_features_def)

text \<open>
  Claim C2, amended. For every supported format \<open>EmptyResponse.save\<close> calls the same
  encoder as \<open>Response.save\<close> does for a query that returns no row, with an empty
  feature sequence. The context arguments are the same for MVT (there are none) and for
  the bounds of TopoJSON. Otherwise the empty response, which holds its bounds only,
  passes fixed values where the response passes its own: zoom 0 and clip \<^verbatim>\<open>False\<close>
  to the GeoJSON encoder, clip \<^verbatim>\<open>False\<close> to the TopoJSON encoder, and the single
  argument \<^verbatim>\<open>None\<close> to the OpenScienceMap and Mapbox encoders in place of the
  coordinate and the layer name.
\<close>

theorem empty_response_dispatch:
  assumes "map_of (r_query self) format = Some query"
    and "r_dbinfo self = Inr db" and "db query = Inr []"
  shows "(format = ''MVT'' \<longrightarrow>
        response_save projLocation self format = Inr (Encode Mvt [AFeatures []])
      \<and> empty_response_save projLocation (r_bounds self) format = Inr (Encode Mvt [AFeatures []]))
    \<and> (format = ''JSON'' \<longrightarrow>
        response_save projLocation self format
          = Inr (Encode Geojson [AFeatures [], AInt (r_zoom self), ABool (r_clip self)])
      \<and> empty_response_save projLocation (r_bounds self) format
          = Inr (Encode Geojson [AFeatures [], AInt 0, ABool False]))
    \<and> (format = ''TopoJSON'' \<longrightarrow>
        response_save projLocation self format
          = Inr (Encode Topojson [AFeatures [], ABounds (geographic_bounds projLocation (r_bounds self)),
                   ABool (r_clip self)])
      \<and> empty_response_save projLocation (r_bounds self) format
          = Inr (Encode Topojson [AFeatures [], ABounds (geographic_bounds projLocation (r_bounds self)),
                   ABool False]))
    \<and> (format = ''OpenScienceMap'' \<longrightarrow>
        response_save projLocation self format
          = Inr (Encode Oscimap [AFeatures [], ACoord (r_coord self), AStr (r_layer_name self)])
      \<and> empty_response_save projLocation (r_bounds self) format
          = Inr (Encode Oscimap [AFeatures [], ANone]))
    \<and> (format = ''Mapbox'' \<longrightarrow>
        response_save projLocation self format
          = Inr (Encode Mapbox [AFeatures [], ACoord (r_coord self), AStr (r_layer_name self)])
      \<and> empty_response_save projLocation (r_bounds self) format
          = Inr (Encode Mapbox [AFeatures [], ANone]))"
proof -
  have "get_features (r_dbinfo self) query = Inr []"
    using assms(2,3) by (simp add: get_features_no_rows)
  then have r: "response_save projLocation self format =
      (if format = ''MVT'' then Inr (Encode Mvt [AFeatures []])
       else if format = ''JSON'' then
         Inr (Encode Geojson [AFeatures [], AInt (r_zoom self), ABool (r_clip self)])
       else if format = ''TopoJSON'' then
         Inr (Encode Topojson [AFeatures [],
                ABounds (geographic_bounds projLocation (r_bounds self)), ABool (r_clip self)])
       else if format = ''OpenScienceMap'' then
         Inr (Encode Oscimap [AFeatures [], ACoord (r_coord self), AStr (r_layer_name self)])
       else if format = ''Mapbox'' then
         Inr (Encode Mapbox [AFeatures [], ACoord (r_coord self), AStr (r_layer_name self)])
       else Inl (ValueError (format @ '' is not supported'')))"
    using assms(1) by (simp add: response_save_def)
  show ?thesis
    unfolding r by (simp add: empty_response_save_def)
qed

theorem empty_response_dispatch_witness:
  "response_save (\<lambda>p. p)
      \<lparr>r_dbinfo = Inr (\<lambda>q. Inr []), r_bounds = (0, 0, 100, 100), r_zoom = 5, r_clip = True,
       r_coord = \<lparr>coord_row = 12, coord_column = 17, coord_zoom = 5\<rparr>, r_layer_name = ''roads'',
       r_query = [(''TopoJSON'', ''SELECT 1 AS geo''), (''JSON'', ''SELECT 1 AS geo''),
                  (''MVT'', ''SELECT 1 AS merc''), (''OpenScienceMap'', ''SELECT 1 AS oscimap''),
                  (''Mapbox'', ''SELECT 1 AS mapbox'')]\<rparr> ''OpenScienceMap''
     = Inr (Encode Oscimap [AFeatures [], ACoord \<lparr>coord_row = 12, coord_column = 17, coord_zoom = 5\<rparr>,
              AStr ''roads''])
   \<and> empty_response_save (\<lambda>p. p) (0, 0, 100, 100) ''OpenScienceMap''
     = Inr (Encode Oscimap [AFeatures [], ANone])"
  using empty_response_dispatch [of
      "\<lparr>r_dbinfo = Inr (\<lambda>q. Inr []), r_bounds = (0, 0, 100, 100), r_zoom = 5, r_clip = True,
       r_coord = \<lparr>coord_row = 12, coord_column = 17, coord_zoom = 5\<rparr>, r_layer_name = ''roads'',
       r_query = [(''TopoJSON'', ''SELECT 1 AS geo''), (''JSON'', ''SELECT 1 AS geo''),
                  (''MVT'', ''SELECT 1 AS merc''), (''OpenScienceMap'', ''SELECT 1 AS oscimap''),
                  (''Mapbox'', ''SELECT 1 AS mapbox'')]\<rparr>"
      "''OpenScienceMap''" "''SELECT 1 AS oscimap''" "\<lambda>q. Inr []" "\<lambda>p. p"]
  by simp

section \<open>\<open>Provider.renderTile\<close>\<close>

text \<open>
  The fields of a provider that \<open>renderTile\<close> reads. \<open>p_layer_name\<close> is what
  \<^verbatim>\<open>self.layer.name()\<close> returns and \<open>p_tile_bounds\<close> is the projection of the tile's
  lower left and upper right corners by \<^verbatim>\<open>self.layer.projection\<close> (lines 150-152);
  both belong to the host framework. \<open>p_columns\<close> is the cache \<^verbatim>\<open>self.columns\<close>,
  keyed by query text; a cached value may be \<^verbatim>\<open>None\<close>.
\<close>

record provider =
  p_layer_name :: string
  p_tile_bounds :: "coordinate \<Rightarrow> bounds"
  p_dbinfo :: dbinfo
  p_clip :: bool
  p_srid :: int
  p_simplify :: real
  p_simplify_until :: int
  p_queries :: "string option list"
  p_columns :: "string \<rightharpoonup> string list option"

datatype tile = EmptyResponse bounds | Response response

text \<open>
  Lines 157-158: the column set of the query is introspected when the cache has no entry
  for it, and stored. \<open>None\<close> is an introspection that never returns.
\<close>

definition cache_columns :: "provider \<Rightarrow> string \<Rightarrow> bounds \<Rightarrow> (py_error + provider) option" where
  "cache_columns self query bounds =
     (case p_columns self query of
        Some _ \<Rightarrow> Some (Inr self)
      | None \<Rightarrow>
          (case query_columns (p_dbinfo self) (p_srid self) query bounds of
             None \<Rightarrow> None
           | Some (Inl e) \<Rightarrow> Some (Inl e)
           | Some (Inr columns) \<Rightarrow> Some (Inr (self\<lparr>p_columns := (p_columns self)(query \<mapsto> columns)\<rparr>))))"

text \<open>
  Lines 142-162. The result is the response or the exception, together with the provider
  (its cache may have grown). \<^verbatim>\<open>if not query\<close> holds for \<^verbatim>\<open>None\<close> and for the
  empty text.
\<close>

definition renderTile ::
  "codec_constants \<Rightarrow> provider \<Rightarrow> coordinate \<Rightarrow> ((py_error + tile) \<times> provider) option" where
  "renderTile consts self coord =
     (case lookup_query (p_queries self) (coord_zoom coord) of
        Inl e \<Rightarrow> Some (Inl e, self)
      | Inr query \<Rightarrow>
          let bounds = p_tile_bounds self coord in
          (case query of
             None \<Rightarrow> Some (Inr (EmptyResponse bounds), self)
           | Some q \<Rightarrow>
               if q = [] then Some (Inr (EmptyResponse bounds), self)
               else
                 (case cache_columns self q bounds of
                    None \<Rightarrow> None
                  | Some (Inl e) \<Rightarrow> Some (Inl e, self)
                  | Some (Inr self') \<Rightarrow>
                      (case zoom_tolerance (p_simplify self') (p_simplify_until self') (coord_zoom coord) of
                         Inl e \<Rightarrow> Some (Inl e, self')
                       | Inr tolerance \<Rightarrow>
                           (case p_columns self' q of
                              None \<Rightarrow> Some (Inl (KeyError q), self')
                            | Some columns \<Rightarrow>
                                (case new_response consts (p_dbinfo self') (p_srid self') q columns bounds
                                        tolerance (coord_zoom coord) (p_clip self') coord (p_layer_name self') of
                                   Inl e \<Rightarrow> Some (Inl e, self')
                                 | Inr r \<Rightarrow> Some (Inr (Response r), self')))))))"

lemma build_query_returns:
  assumes "''__geometry__'' \<in> set cols"
  shows "\<exists>text. build_query srid subquery (Some cols) bounds tolerance is_geo is_clipped padding scale
           = Inr text"
proof -
  obtain columns where "build_query_columns cols = Inr columns"
    using build_query_columns_ok [OF assms] by blast
  then show ?thesis by (simp add: build_query_text)
qed

lemma zoom_tolerance_past_table:
  assumes "22 \<le> z"
  shows "zoom_tolerance simplify simplify_until z =
           (if z < simplify_until then Inl IndexError else Inr None)"
  using assms by (simp add: zoom_tolerance_def py_index_past_end length_tolerances)

lemma new_response_past_table:
  assumes "22 \<le> coord_zoom coord" and "''__geometry__'' \<in> set cols"
  shows "new_response consts dbinfo srid subquery (Some cols) bounds tolerance zoom clip coord layer_name
           = Inl IndexError"
proof -
  obtain geo where g: "build_query srid subquery (Some cols) bounds tolerance True clip 0 None = Inr geo"
    using build_query_returns [OF assms(2)] by blast
  obtain merc where m: "build_query srid subquery (Some cols) bounds tolerance False clip 0 None = Inr merc"
    using build_query_returns [OF assms(2)] by blast
  have "py_index tolerances (coord_zoom coord) = Inl IndexError"
    using assms(1) by (simp add: py_index_past_end length_tolerances)
  then show ?thesis by (simp add: new_response_def g m)
qed

lemma new_response_no_geometry:
  assumes "''__geometry__'' \<notin> set cols"
  shows "new_response consts dbinfo srid subquery (Some cols) bounds tolerance zoom clip coord layer_name
           = Inl geometry_missing"
  using assms by (simp add: new_response_def build_query_def build_query_columns_def Let_def)

lemma cache_columns_fields:
  assumes "cache_columns self q bounds = Some (Inr self')"
  shows "p_simplify self' = p_simplify self" and "p_simplify_until self' = p_simplify_until self"
    and "p_dbinfo self' = p_dbinfo self" and "p_srid self' = p_srid self"
    and "p_clip self' = p_clip self" and "p_layer_name self' = p_layer_name self"
    and "p_queries self' = p_queries self" and "p_tile_bounds self' = p_tile_bounds self"
  using assms
  by (auto simp: cache_columns_def split: option.splits sum.splits)

lemma cache_columns_known:
  assumes "p_columns self q = Some colset
      \<or> (p_columns self q = None
          \<and> query_columns (p_dbinfo self) (p_srid self) q bounds = Some (Inr colset))"
  shows "\<exists>self'. cache_columns self q bounds = Some (Inr self') \<and> p_columns self' q = Some colset"
  using assms by (auto simp: cache_columns_def)

text \<open>
  Claim C10, as stated: every request with a non-null query template and a zoom of at
  least 22 fails with \<open>IndexError\<close>. With the column set \<open>{name}\<close> cached for the
  query, zoom 22 and \<open>simplify_until = 16\<close>, the first \<open>build_query\<close> of
  \<open>Response.__init__\<close> raises the missing-geometry exception before the table is
  indexed; and a template that is the empty text is not null, yet \<open>renderTile\<close> returns
  an empty response for it.
\<close>

theorem render_tile_index_error_counterexample:
  "lookup_query [Some ''SELECT name FROM roads''] 22 = Inr (Some ''SELECT name FROM roads'')
   \<and> renderTile \<lparr>oscimap_padding = 0, oscimap_extents = 4096, mapbox_padding = 0, mapbox_extents = 4096\<rparr>
        \<lparr>p_layer_name = ''roads'', p_tile_bounds = (\<lambda>c. (0, 0, 100, 100)), p_dbinfo = Inr (\<lambda>q. Inr []),
         p_clip = True, p_srid = 900913, p_simplify = 1, p_simplify_until = 16,
         p_queries = [Some ''SELECT name FROM roads''],
         p_columns = [''SELECT name FROM roads'' \<mapsto> Some [''name'']]\<rparr>
        \<lparr>coord_row = 0, coord_column = 0, coord_zoom = 22\<rparr>
     = Some (Inl geometry_missing,
        \<lparr>p_layer_name = ''roads'', p_tile_bounds = (\<lambda>c. (0, 0, 100, 100)), p_dbinfo = Inr (\<lambda>q. Inr []),
         p_clip = True, p_srid = 900913, p_simplify = 1, p_simplify_until = 16,
         p_queries = [Some ''SELECT name FROM roads''],
         p_columns = [''SELECT name FROM roads'' \<mapsto> Some [''name'']]\<rparr>)
   \<and> geometry_missing \<noteq> IndexError
   \<and> lookup_query [Some ''''] 22 = Inr (Some '''')
   \<and> renderTile \<lparr>oscimap_padding = 0, oscimap_extents = 4096, mapbox_padding = 0, mapbox_extents = 4096\<rparr>
        \<lparr>p_layer_name = ''roads'', p_tile_bounds = (\<lambda>c. (0, 0, 100, 100)), p_dbinfo = Inr (\<lambda>q. Inr []),
         p_clip = True, p_srid = 900913, p_simplify = 1, p_simplify_until = 16,
         p_queries = [Some ''''], p_columns = Map.empty\<rparr>
        \<lparr>coord_row = 0, coord_column = 0, coord_zoom = 22\<rparr>
     = Some (Inr (EmptyResponse (0, 0, 100, 100)),
        \<lparr>p_layer_name = ''roads'', p_tile_bounds = (\<lambda>c. (0, 0, 100, 100)), p_dbinfo = Inr (\<lambda>q. Inr []),
         p_clip = True, p_srid = 900913, p_simplify = 1, p_simplify_until = 16,
         p_queries = [Some ''''], p_columns = Map.empty\<rparr>)"
proof -
  have l1: "lookup_query [Some ''SELECT name FROM roads''] 22 = Inr (Some ''SELECT name FROM roads'')"
    and l2: "lookup_query [Some ''''] 22 = Inr (Some '''')"
    by (simp_all add: lookup_query_def py_index_def)
  have g: "geometry_missing \<noteq> IndexError" by (simp add: geometry_missing_def)
  show ?thesis
    using g
    by (simp add: renderTile_def l1 l2 cache_columns_def zoom_tolerance_past_table
        new_response_no_geometry)
qed

text \<open>
  Claim C10, amended. For every tile request whose resolved query template is not empty,
  whose zoom is at least 22 and whose column set is known (cached, or returned by
  \<open>query_columns\<close>), \<open>renderTile\<close> fails with \<open>IndexError\<close>: below
  \<open>simplify_until\<close> line 160 indexes the 22-entry table; at or above it, where the
  tolerance is absent, \<open>Response.__init__\<close> indexes the table for the padding of the
  binary formats, once the first two queries are built, which takes a column set with
  the \<open>__geometry__\<close> column.
\<close>

theorem render_tile_past_table:
  assumes "22 \<le> coord_zoom coord"
    and "lookup_query (p_queries self) (coord_zoom coord) = Inr (Some q)" and "q \<noteq> []"
    and "p_columns self q = Some colset
      \<or> (p_columns self q = None
          \<and> query_columns (p_dbinfo self) (p_srid self) q (p_tile_bounds self coord) = Some (Inr colset))"
    and "coord_zoom coord < p_simplify_until self
      \<or> (\<exists>cols. colset = Some cols \<and> ''__geometry__'' \<in> set cols)"
  shows "\<exists>self'. renderTile consts self coord = Some (Inl IndexError, self')"
proof -
  obtain self' where c: "cache_columns self q (p_tile_bounds self coord) = Some (Inr self')"
    and k: "p_columns self' q = Some colset"
    using cache_columns_known [OF assms(4)] by blast
  note f = cache_columns_fields [OF c]
  have "renderTile consts self coord = Some (Inl IndexError, self')"
  proof (cases "coord_zoom coord < p_simplify_until self")
    case True
    then show ?thesis
      using assms(1-3) c
      by (simp add: renderTile_def f zoom_tolerance_past_table)
  next
    case False
    then obtain cols where cols: "colset = Some cols" "''__geometry__'' \<in> set cols"
      using assms(5) by blast
    show ?thesis
      using assms(1-3) c k False cols
      by (simp add: renderTile_def f zoom_tolerance_past_table new_response_past_table)
  qed
  then show ?thesis by blast
qed

theorem render_tile_past_table_witness:
  "\<exists>self'. renderTile \<lparr>oscimap_padding = 0, oscimap_extents = 4096, mapbox_padding = 0, mapbox_extents = 4096\<rparr>
        \<lparr>p_layer_name = ''roads'', p_tile_bounds = (\<lambda>c. (0, 0, 100, 100)), p_dbinfo = Inr (\<lambda>q. Inr []),
         p_clip = True, p_srid = 900913, p_simplify = 1, p_simplify_until = 16,
         p_queries = [Some ''SELECT way AS __geometry__, name FROM roads''],
         p_columns = [''SELECT way AS __geometry__, name FROM roads'' \<mapsto> Some [''__geometry__'', ''name'']]\<rparr>
        \<lparr>coord_row = 0, coord_column = 0, coord_zoom = 22\<rparr>
     = Some (Inl IndexError, self')"
  by (rule render_tile_past_table [where q = "''SELECT way AS __geometry__, name FROM roads''"
        and colset = "Some [''__geometry__'', ''name'']"])
     (simp_all add: lookup_query_def py_index_def)

section \<open>Multi-layer responses\<close>

text \<open>
  \<open>MultiResponse\<close> holds the configuration, the layer names and the coordinate. Of the
  configuration only \<^verbatim>\<open>config.layers\<close> is read: a dictionary from names to layers,
  a layer being here its VecTiles provider (layers with another provider are outside
  this model). What \<open>save\<close> does is recorded as the calls it makes on the operations
  that run queries and the call on the codec that ends it:
  \<^verbatim>\<open>getTile\<close> of the host framework, \<open>renderTile\<close> of a layer's provider and
  \<open>get_features\<close>. No query runs outside these calls.
\<close>

record multi_response =
  m_layers :: "string \<rightharpoonup> provider"
  m_names :: "string list"
  m_coord :: coordinate

datatype event = CallGetTile string string | CallRenderTile string | CallGetFeatures string

text \<open>\<^verbatim>\<open>s.lower()\<close> on ASCII letters, and \<^verbatim>\<open>__name__\<close> of the module.\<close>

definition py_lower :: "string \<Rightarrow> string" where
  "py_lower s =
     map (\<lambda>c. let n = (of_char c :: nat) in if 65 \<le> n \<and> n \<le> 90 then char_of (n + 32) else c) s"

definition server_module :: string where
  "server_module = ''TileStache.Goodies.VecTiles.server''"

text \<open>
  \<^verbatim>\<open>topo['type']\<close> on a parsed JSON value, and \<^verbatim>\<open>'%s' % v\<close> of such a value;
  \<open>py_str\<close> is Python's \<^verbatim>\<open>str\<close> on values that are not strings, a parameter.
\<close>

definition json_item :: "json \<Rightarrow> string \<Rightarrow> py_error + json" where
  "json_item v k =
     (case v of
        JObject items \<Rightarrow> (case map_of items k of None \<Rightarrow> Inl (KeyError k) | Some x \<Rightarrow> Inr x)
      | _ \<Rightarrow> Inl TypeError)"

definition fmt_s :: "(json \<Rightarrow> string) \<Rightarrow> json \<Rightarrow> string" where
  "fmt_s py_str v = (case v of JString s \<Rightarrow> s | _ \<Rightarrow> py_str v)"

text \<open>
  Line 375, the list comprehension over the layers: \<^verbatim>\<open>getTile\<close> is called for each
  layer in turn and the first exception ends it. \<open>getTile\<close> is the host framework's
  entry point, a parameter here, taking the layer by its name.
\<close>

fun get_tile_all ::
  "(string \<Rightarrow> coordinate \<Rightarrow> string \<Rightarrow> py_error + string \<times> string) \<Rightarrow> coordinate \<Rightarrow> string
     \<Rightarrow> string list \<Rightarrow> event list \<times> (py_error + (string \<times> string) list)" where
  "get_tile_all getTile coord ext [] = ([], Inr [])"
| "get_tile_all getTile coord ext (n # ns) =
     (case getTile n coord ext of
        Inl e \<Rightarrow> ([CallGetTile n ext], Inl e)
      | Inr mb \<Rightarrow>
          (case get_tile_all getTile coord ext ns of
             (ev, Inl e) \<Rightarrow> (CallGetTile n ext # ev, Inl e)
           | (ev, Inr mbs) \<Rightarrow> (CallGetTile n ext # ev, Inr (mb # mbs))))"

text \<open>Line 381, \<^verbatim>\<open>map(json.loads, bodies)\<close>, and \<^verbatim>\<open>topo['type']\<close> for every tile.\<close>

fun loads_all :: "(string \<Rightarrow> py_error + json) \<Rightarrow> string list \<Rightarrow> py_error + json list" where
  "loads_all json_loads [] = Inr []"
| "loads_all json_loads (b # bs) =
     (case json_loads b of
        Inl e \<Rightarrow> Inl e
      | Inr t \<Rightarrow> (case loads_all json_loads bs of Inl e \<Rightarrow> Inl e | Inr ts \<Rightarrow> Inr (t # ts)))"

fun types_all :: "json list \<Rightarrow> py_error + json list" where
  "types_all [] = Inr []"
| "types_all (t # ts) =
     (case json_item t ''type'' of
        Inl e \<Rightarrow> Inl e
      | Inr x \<Rightarrow> (case types_all ts of Inl e \<Rightarrow> Inl e | Inr xs \<Rightarrow> Inr (x # xs)))"

text \<open>
  Lines 368-387, \<open>get_tiles\<close>. The set difference of line 369 is the list of the unknown
  names in the order of their first occurrence (Python fixes no order for a set).
  Unpacking \<^verbatim>\<open>zip(*[])\<close> into two names raises \<open>ValueError\<close>.
\<close>

definition get_tiles ::
  "(string \<Rightarrow> coordinate \<Rightarrow> string \<Rightarrow> py_error + string \<times> string) \<Rightarrow> (string \<Rightarrow> py_error + json)
     \<Rightarrow> (json \<Rightarrow> string) \<Rightarrow> multi_response \<Rightarrow> string \<Rightarrow> event list \<times> (py_error + json list)" where
  "get_tiles getTile json_loads py_str self format =
     (let unknown_layers = remdups (filter (\<lambda>n. m_layers self n = None) (m_names self)) in
      if unknown_layers \<noteq> [] then
        ([], Inl (KnownUnknown (server_module @ ''.get_tiles didn'' @ [CHR 0x27] @ ''t recognize ''
                    @ str_join '', '' unknown_layers @ '' when trying to load ''
                    @ str_join '', '' (m_names self) @ ''.'')))
      else
        (case get_tile_all getTile (m_coord self) (py_lower format) (m_names self) of
           (ev, Inl e) \<Rightarrow> (ev, Inl e)
         | (ev, Inr tiles) \<Rightarrow>
             if tiles = [] then (ev, Inl (ValueError ''need more than 0 values to unpack''))
             else
               let mimes = map fst tiles; bodies = map snd tiles;
                   bad_mimes = filter (\<lambda>(name, mime). \<not> suffix ''/json'' mime)
                                 (map (\<lambda>(mime, name). (name, mime)) (zip mimes (m_names self)))
               in
               (case bad_mimes of
                  (name, mime) # _ \<Rightarrow>
                    (ev, Inl (KnownUnknown (server_module
                            @ ''.get_tiles encountered a non-JSON mime-type in '' @ name
                            @ '' sub-layer: '' @ [CHR 0x22] @ mime @ [CHR 0x22])))
                | [] \<Rightarrow>
                    (case loads_all json_loads bodies of
                       Inl e \<Rightarrow> (ev, Inl e)
                     | Inr tiles \<Rightarrow>
                         (case types_all tiles of
                            Inl e \<Rightarrow> (ev, Inl e)
                          | Inr types \<Rightarrow>
                              let expected = (if py_lower format = ''json''
                                              then ''FeatureCollection'' else ''Topology'');
                                  bad_types = filter (\<lambda>(name, t). t \<noteq> JString expected)
                                                (map (\<lambda>(t, name). (name, t)) (zip types (m_names self)))
                              in
                              (case bad_types of
                                 (name, t) # _ \<Rightarrow>
                                   (ev, Inl (KnownUnknown (server_module
                                           @ ''.get_tiles encountered a non-''
                                           @ (if py_lower format = ''json'' then ''Feature'' else ''Topology'')
                                           @ ''Collection type in '' @ name
                                           @ '' sub-layer: '' @ [CHR 0x22] @ fmt_s py_str t @ [CHR 0x22])))
                               | [] \<Rightarrow> (ev, Inr tiles)))))))"

text \<open>
  Lines 347 and 357: \<^verbatim>\<open>[self.config.layers[name] for name in self.names]\<close> raises
  \<open>KeyError\<close> at the first name that is not a key.
\<close>

fun lookup_layers :: "(string \<rightharpoonup> provider) \<Rightarrow> string list \<Rightarrow> py_error + provider list" where
  "lookup_layers layers [] = Inr []"
| "lookup_layers layers (n # ns) =
     (case layers n of
        None \<Rightarrow> Inl (KeyError n)
      | Some layer \<Rightarrow>
          (case lookup_layers layers ns of Inl e \<Rightarrow> Inl e | Inr ls \<Rightarrow> Inr (layer # ls)))"

text \<open>
  Lines 348-352 and 358-362, the loop over the layers. The layers are objects shared with
  the configuration, so the cache that \<open>renderTile\<close> fills in a provider is seen when
  the same name comes again: the dictionary is threaded through the loop. \<open>key\<close> is the
  format name under which the tile's query is taken.
\<close>

fun feature_layers ::
  "codec_constants \<Rightarrow> string \<Rightarrow> coordinate \<Rightarrow> (string \<rightharpoonup> provider) \<Rightarrow> string list
     \<Rightarrow> (event list \<times> (py_error + (string \<times> feature list) list)) option" where
  "feature_layers consts key coord layers [] = Some ([], Inr [])"
| "feature_layers consts key coord layers (n # ns) =
     (case layers n of
        None \<Rightarrow> Some ([], Inl (KeyError n))
      | Some layer \<Rightarrow>
          (case renderTile consts layer coord of
             None \<Rightarrow> None
           | Some (Inl e, layer') \<Rightarrow> Some ([CallRenderTile n], Inl e)
           | Some (Inr (EmptyResponse b), layer') \<Rightarrow>
               (case feature_layers consts key coord (layers(n \<mapsto> layer')) ns of
                  None \<Rightarrow> None
                | Some (ev, res) \<Rightarrow> Some (CallRenderTile n # ev, res))
           | Some (Inr (Response tile), layer') \<Rightarrow>
               (case map_of (r_query tile) key of
                  None \<Rightarrow> Some ([CallRenderTile n], Inl (KeyError key))
                | Some query \<Rightarrow>
                    (case get_features (r_dbinfo tile) query of
                       Inl e \<Rightarrow> Some ([CallRenderTile n, CallGetFeatures query], Inl e)
                     | Inr features \<Rightarrow>
                         (case feature_layers consts key coord (layers(n \<mapsto> layer')) ns of
                            None \<Rightarrow> None
                          | Some (ev, Inl e) \<Rightarrow>
                              Some (CallRenderTile n # CallGetFeatures query # ev, Inl e)
                          | Some (ev, Inr fl) \<Rightarrow>
                              Some (CallRenderTile n # CallGetFeatures query # ev,
                                    Inr ((p_layer_name layer', features) # fl)))))))"

text \<open>Lines 336-366, \<open>MultiResponse.save\<close>.\<close>

definition binary_save ::
  "codec_constants \<Rightarrow> multi_response \<Rightarrow> string \<Rightarrow> codec \<Rightarrow> (event list \<times> (py_error + codec_call)) option" where
  "binary_save consts self key codec =
     (case lookup_layers (m_layers self) (m_names self) of
        Inl e \<Rightarrow> Some ([], Inl e)
      | Inr layers \<Rightarrow>
          (case feature_layers consts key (m_coord self) (m_layers self) (m_names self) of
             None \<Rightarrow> None
           | Some (ev, Inl e) \<Rightarrow> Some (ev, Inl e)
           | Some (ev, Inr fl) \<Rightarrow>
               Some (ev, Inr (Merge codec [AFeatureLayers fl, ACoord (m_coord self)]))))"

definition multi_save ::
  "(string \<Rightarrow> coordinate \<Rightarrow> string \<Rightarrow> py_error + string \<times> string) \<Rightarrow> (string \<Rightarrow> py_error + json)
     \<Rightarrow> (json \<Rightarrow> string) \<Rightarrow> codec_constants \<Rightarrow> multi_response \<Rightarrow> string
     \<Rightarrow> (event list \<times> (py_error + codec_call)) option" where
  "multi_save getTile json_loads py_str consts self format =
     (if format = ''TopoJSON'' then
        (case get_tiles getTile json_loads py_str self format of
           (ev, Inl e) \<Rightarrow> Some (ev, Inl e)
         | (ev, Inr tiles) \<Rightarrow>
             Some (ev, Inr (Merge Topojson [ANames (m_names self), ATiles tiles, AConfig,
                                            ACoord (m_coord self)])))
      else if format = ''JSON'' then
        (case get_tiles getTile json_loads py_str self format of
           (ev, Inl e) \<Rightarrow> Some (ev, Inl e)
         | (ev, Inr tiles) \<Rightarrow>
             Some (ev, Inr (Merge Geojson [ANames (m_names self), ATiles tiles, AConfig,
                                           ACoord (m_coord self)])))
      else if format = ''OpenScienceMap'' then binary_save consts self ''OpenScienceMap'' Oscimap
      else if format = ''Mapbox'' then binary_save consts self ''Mapbox'' Mapbox
      else Some ([], Inl (ValueError (format @ '' is not supported for responses with multiple layers''))))"

text \<open>
  An error names a layer when it is the \<open>KeyError\<close> of that name, or a
  \<open>KnownUnknown\<close> whose message contains the name.
\<close>

definition error_names :: "py_error \<Rightarrow> string \<Rightarrow> bool" where
  "error_names e c =
     (case e of KeyError k \<Rightarrow> k = c | KnownUnknown msg \<Rightarrow> sublist c msg | _ \<Rightarrow> False)"

lemma sublist_str_join:
  "c \<in> set xs \<Longrightarrow> sublist c (str_join sep xs)"
proof (induction sep xs rule: str_join.induct)
  case (1 sep)
  then show ?case by simp
next
  case (2 sep x)
  then show ?case by simp
next
  case (3 sep x y ys)
  show ?case
  proof (cases "c = x")
    case True
    have "str_join sep (x # y # ys) = [] @ c @ (sep @ str_join sep (y # ys))"
      using True by simp
    then show ?thesis unfolding sublist_def by blast
  next
    case False
    then have "sublist c (str_join sep (y # ys))" using 3 by simp
    then obtain ps ss where "str_join sep (y # ys) = ps @ c @ ss"
      unfolding sublist_def by blast
    then have "str_join sep (x # y # ys) = (x @ sep @ ps) @ c @ ss" by simp
    then show ?thesis unfolding sublist_def by blast
  qed
qed

lemma lookup_layers_unknown:
  assumes "\<exists>n\<in>set names. layers n = None"
  shows "\<exists>c. lookup_layers layers names = Inl (KeyError c) \<and> c \<in> set names \<and> layers c = None"
  using assms
proof (induction names)
  case Nil
  then show ?case by simp
next
  case (Cons n ns)
  show ?case
  proof (cases "layers n")
    case None
    then show ?thesis by auto
  next
    case (Some layer)
    then have "\<exists>n\<in>set ns. layers n = None" using Cons.prems by auto
    then obtain c where "lookup_layers layers ns = Inl (KeyError c)" "c \<in> set ns" "layers c = None"
      using Cons.IH by blast
    then show ?thesis using Some by auto
  qed
qed

lemma get_tiles_unknown:
  assumes "c \<in> set (m_names self)" "m_layers self c = None"
  shows "\<exists>msg. get_tiles getTile json_loads py_str self format = ([], Inl (KnownUnknown msg))
      \<and> (\<forall>u\<in>set (m_names self). m_layers self u = None \<longrightarrow> sublist u msg)"
proof -
  define unknown where "unknown = remdups (filter (\<lambda>n. m_layers self n = None) (m_names self))"
  define msg where "msg = server_module @ ''.get_tiles didn'' @ [CHR 0x27] @ ''t recognize ''
      @ str_join '', '' unknown @ '' when trying to load '' @ str_join '', '' (m_names self) @ ''.''"
  have "c \<in> set unknown" using assms by (simp add: unknown_def)
  then have ne: "unknown \<noteq> []" by auto
  have g: "get_tiles getTile json_loads py_str self format = ([], Inl (KnownUnknown msg))"
    using ne by (simp add: get_tiles_def Let_def unknown_def [symmetric] msg_def)
  have "sublist u msg" if "u \<in> set (m_names self)" "m_layers self u = None" for u
  proof -
    have "u \<in> set unknown" using that by (simp add: unknown_def)
    then have "sublist u (str_join '', '' unknown)" by (rule sublist_str_join)
    then obtain ps ss where "str_join '', '' unknown = ps @ u @ ss"
      by (auto simp: sublist_def)
    then have "msg = (server_module @ ''.get_tiles didn'' @ [CHR 0x27] @ ''t recognize '' @ ps) @ u
        @ (ss @ '' when trying to load '' @ str_join '', '' (m_names self) @ ''.'')"
      by (simp add: msg_def)
    then show ?thesis unfolding sublist_def by blast
  qed
  with g show ?thesis by blast
qed

lemma multi_save_json_error:
  assumes "format = ''TopoJSON'' \<or> format = ''JSON''"
    and "get_tiles getTile json_loads py_str self format = (ev, Inl e)"
  shows "multi_save getTile json_loads py_str consts self format = Some (ev, Inl e)"
  using assms(1)
proof
  assume f: "format = ''TopoJSON''"
  show ?thesis using assms(2) unfolding f by (simp add: multi_save_def)
next
  assume f: "format = ''JSON''"
  show ?thesis using assms(2) unfolding f by (simp add: multi_save_def)
qed

lemma multi_save_binary_error:
  assumes "format = ''OpenScienceMap'' \<or> format = ''Mapbox''"
    and "lookup_layers (m_layers self) (m_names self) = Inl e"
  shows "multi_save getTile json_loads py_str consts self format = Some ([], Inl e)"
  using assms(1)
proof
  assume f: "format = ''OpenScienceMap''"
  show ?thesis using assms(2) unfolding f by (simp add: multi_save_def binary_save_def)
next
  assume f: "format = ''Mapbox''"
  show ?thesis using assms(2) unfolding f by (simp add: multi_save_def binary_save_def)
qed

text \<open>
  Claim C8. A multi-layer request that names a layer absent from the registry fails
  before any query runs, in every format family: \<open>save\<close> makes no call on
  \<^verbatim>\<open>getTile\<close>, \<open>renderTile\<close> or \<open>get_features\<close>, and the error names an unknown
  layer of the request. For JSON and TopoJSON it is the \<open>KnownUnknown\<close> of
  \<open>get_tiles\<close>, whose message contains every unknown name; for OpenScienceMap and Mapbox
  it is the \<open>KeyError\<close> of the dictionary lookup, for the first unknown name.
\<close>

theorem unknown_layer_fails_first:
  assumes "format = ''TopoJSON'' \<or> format = ''JSON'' \<or> format = ''OpenScienceMap'' \<or> format = ''Mapbox''"
    and "\<exists>n\<in>set (m_names self). m_layers self n = None"
  shows "\<exists>e c. multi_save getTile json_loads py_str consts self format = Some ([], Inl e)
      \<and> c \<in> set (m_names self) \<and> m_layers self c = None \<and> error_names e c
      \<and> (format = ''TopoJSON'' \<or> format = ''JSON'' \<longrightarrow>
           (\<forall>u\<in>set (m_names self). m_layers self u = None \<longrightarrow> error_names e u))"
proof -
  obtain c where c: "c \<in> set (m_names self)" "m_layers self c = None"
    using assms(2) by blast
  show ?thesis
  proof (cases "format = ''TopoJSON'' \<or> format = ''JSON''")
    case True
    obtain msg where g: "get_tiles getTile json_loads py_str self format = ([], Inl (KnownUnknown msg))"
      and n: "\<forall>u\<in>set (m_names self). m_layers self u = None \<longrightarrow> sublist u msg"
      using get_tiles_unknown [OF c] by blast
    have s: "multi_save getTile json_loads py_str consts self format = Some ([], Inl (KnownUnknown msg))"
      by (rule multi_save_json_error [OF True g])
    have a: "\<forall>u\<in>set (m_names self). m_layers self u = None \<longrightarrow> error_names (KnownUnknown msg) u"
      using n by (simp add: error_names_def)
    then have "error_names (KnownUnknown msg) c" using c by blast
    with s a c show ?thesis
      by (intro exI [of _ "KnownUnknown msg"] exI [of _ c]) simp
  next
    case False
    then have b: "format = ''OpenScienceMap'' \<or> format = ''Mapbox''" using assms(1) by blast
    obtain k where k: "lookup_layers (m_layers self) (m_names self) = Inl (KeyError k)"
      "k \<in> set (m_names self)" "m_layers self k = None"
      using lookup_layers_unknown [OF assms(2)] by blast
    have s: "multi_save getTile json_loads py_str consts self format = Some ([], Inl (KeyError k))"
      by (rule multi_save_binary_error [OF b k(1)])
    have "error_names (KeyError k) k" by (simp add: error_names_def)
    with s k(2,3) False show ?thesis
      by (intro exI [of _ "KeyError k"] exI [of _ k]) simp
  qed
qed

theorem unknown_layer_fails_first_witness:
  "(\<exists>e. multi_save (\<lambda>n c ext. Inr (''application/json'', ''{}'')) (\<lambda>b. Inr (JObject [])) (\<lambda>v. ''null'')
        \<lparr>oscimap_padding = 0, oscimap_extents = 4096, mapbox_padding = 0, mapbox_extents = 4096\<rparr>
        \<lparr>m_layers = [''a'' \<mapsto>
            \<lparr>p_layer_name = ''a'', p_tile_bounds = (\<lambda>c. (0, 0, 100, 100)), p_dbinfo = Inr (\<lambda>q. Inr []),
             p_clip = True, p_srid = 900913, p_simplify = 1, p_simplify_until = 16,
             p_queries = [Some ''SELECT way AS __geometry__ FROM roads''], p_columns = Map.empty\<rparr>],
         m_names = [''a'', ''c''], m_coord = \<lparr>coord_row = 0, coord_column = 0, coord_zoom = 3\<rparr>\<rparr>
        ''Mapbox'' = Some ([], Inl e) \<and> error_names e ''c'')
   \<and> (\<exists>e. multi_save (\<lambda>n c ext. Inr (''application/json'', ''{}'')) (\<lambda>b. Inr (JObject [])) (\<lambda>v. ''null'')
        \<lparr>oscimap_padding = 0, oscimap_extents = 4096, mapbox_padding = 0, mapbox_extents = 4096\<rparr>
        \<lparr>m_layers = [''a'' \<mapsto>
            \<lparr>p_layer_name = ''a'', p_tile_bounds = (\<lambda>c. (0, 0, 100, 100)), p_dbinfo = Inr (\<lambda>q. Inr []),
             p_clip = True, p_srid = 900913, p_simplify = 1, p_simplify_until = 16,
             p_queries = [Some ''SELECT way AS __geometry__ FROM roads''], p_columns = Map.empty\<rparr>],
         m_names = [''a'', ''c''], m_coord = \<lparr>coord_row = 0, coord_column = 0, coord_zoom = 3\<rparr>\<rparr>
        ''JSON'' = Some ([], Inl e) \<and> error_names e ''c'')"
proof -
  define P where "P = \<lparr>p_layer_name = ''a'', p_tile_bounds = (\<lambda>c. (0, 0, 100, 100)),
      p_dbinfo = (Inr (\<lambda>q. Inr []) :: dbinfo),
      p_clip = True, p_srid = 900913, p_simplify = 1, p_simplify_until = 16,
      p_queries = [Some ''SELECT way AS __geometry__ FROM roads''], p_columns = Map.empty\<rparr>"
  define M where "M = \<lparr>m_layers = [''a'' \<mapsto> P], m_names = [''a'', ''c''],
      m_coord = \<lparr>coord_row = 0, coord_column = 0, coord_zoom = 3\<rparr>\<rparr>"
  have u: "\<exists>n\<in>set (m_names M). m_layers M n = None" by (simp add: M_def)
  have only: "c = ''c''" if "c \<in> set (m_names M)" "m_layers M c = None" for c
    using that by (auto simp: M_def split: if_splits)
  have "\<exists>e. multi_save getTile json_loads py_str cc M format = Some ([], Inl e) \<and> error_names e ''c''"
    if f: "format = ''TopoJSON'' \<or> format = ''JSON'' \<or> format = ''OpenScienceMap'' \<or> format = ''Mapbox''"
    for getTile json_loads py_str cc format
  proof -
    obtain e c where "multi_save getTile json_loads py_str cc M format = Some ([], Inl e)"
      "c \<in> set (m_names M)" "m_layers M c = None" "error_names e c"
      using unknown_layer_fails_first [OF f u, of getTile json_loads py_str cc] by blast
    then show ?thesis using only by blast
  qed
  from this [of "''Mapbox''"] this [of "''JSON''"] show ?thesis
    unfolding M_def P_def by simp
qed

end
